theory Spec2Isabelle
  imports Complex_Main "HOL-Library.Word"
begin

section \<open>The NeuralRAG store: a shallow embedding of db.ts\<close>

text \<open>
  The store of \<^verbatim>\<open>db.ts\<close> is an SQLite file with the tables \<^verbatim>\<open>_meta\<close>,
  \<^verbatim>\<open>neurons\<close> and \<^verbatim>\<open>synapses\<close> (the tables \<^verbatim>\<open>indexed_files\<close> and
  \<^verbatim>\<open>query_log\<close> play no part in what is proved here and are left out). A table is
  the list of its rows in insertion order; a method of class \<^verbatim>\<open>NeuralDB\<close> takes the
  tables and returns its result together with the tables afterwards.

  What the environment supplies is a parameter of the model: the identifier drawn by
  \<^verbatim>\<open>uuidv4()\<close> and the reading of the clock. A time is the Julian day number that
  SQLite's \<^verbatim>\<open>julianday\<close> gives for the stored text.

  A weight is an IEEE double. The model keeps the values that SQLite treats apart, the
  finite ones, the two infinities and \<^verbatim>\<open>NaN\<close>, and computes on the finite ones as on
  real numbers: rounding and overflow of doubles are not modelled. A delta and a number
  of days are finite.
\<close>

subsection \<open>Types (types.ts)\<close>

type_synonym timestamp = real

type_synonym byte = "8 word"

text \<open>
  A value of a \<^verbatim>\<open>REAL NOT NULL\<close> column: a finite number or an infinity.
\<close>

datatype sql_real = Fin real | PosInf | NegInf

text \<open>
  A JavaScript \<^verbatim>\<open>number\<close>: \<^verbatim>\<open>NaN\<close>, or a value that SQLite stores as it is.
  SQLite binds \<^verbatim>\<open>NaN\<close> as \<^verbatim>\<open>NULL\<close>.
\<close>

datatype number = Num sql_real | NaN

datatype NeuronType =
    NFunction | NClass | NMethod | NType | NInterface
  | NModule | NConfig | NDoc | NVariable | NExport

datatype SynapseType =
    Imports | Calls | Type_reference | Extends | Proximity | Co_activation | Semantic

text \<open>
  A \<^verbatim>\<open>Float32Array\<close> is a view on an \<^verbatim>\<open>ArrayBuffer\<close>: the bytes of the buffer, the
  offset of the first element in bytes and the number of elements. Its elements are the
  bytes \<open>byteOffset\<close> to \<open>byteOffset + 4 * elems\<close> of the buffer, four for each float.
\<close>

record Float32Array =
  buffer :: "byte list"
  byteOffset :: nat
  elems :: nat

definition valid_view :: "Float32Array \<Rightarrow> bool" where
  "valid_view a \<longleftrightarrow>
     byteOffset a mod 4 = 0 \<and> byteOffset a + 4 * elems a \<le> length (buffer a)"

definition view_bytes :: "Float32Array \<Rightarrow> byte list" where
  "view_bytes a = take (4 * elems a) (drop (byteOffset a) (buffer a))"

record NeuronCreateInput =
  i_content :: string
  i_summary :: string
  i_embedding :: Float32Array
  i_file_path :: string
  i_start_line :: int
  i_end_line :: int
  i_type :: NeuronType
  i_name :: string
  i_language :: string

record Neuron =
  n_id :: string
  content :: string
  summary :: string
  embedding :: Float32Array
  file_path :: string
  start_line :: int
  end_line :: int
  n_type :: NeuronType
  name :: string
  language :: string
  activation_count :: int
  last_activated :: "timestamp option"
  n_created_at :: timestamp
  updated_at :: timestamp

text \<open>
  The metadata of a synapse is kept as its JSON text on both sides of the store;
  \<^verbatim>\<open>JSON.stringify\<close> and \<^verbatim>\<open>JSON.parse\<close> are not modelled.
\<close>

record SynapseCreateInput =
  i_source_id :: string
  i_target_id :: string
  i_weight :: number
  i_stype :: SynapseType
  i_metadata :: "string option"

record Synapse =
  s_id :: string
  source_id :: string
  target_id :: string
  weight :: sql_real
  s_type :: SynapseType
  metadata :: "string option"
  fire_count :: int
  last_fired :: "timestamp option"
  s_created_at :: timestamp

subsection \<open>Tables\<close>

text \<open>A row of table \<^verbatim>\<open>neurons\<close>: the embedding is a BLOB or NULL.\<close>

record neuron_row =
  r_id :: string
  r_content :: string
  r_summary :: string
  r_embedding :: "byte list option"
  r_file_path :: string
  r_start_line :: int
  r_end_line :: int
  r_type :: NeuronType
  r_name :: string
  r_language :: string
  r_activation_count :: int
  r_last_activated :: "timestamp option"
  r_created_at :: timestamp
  r_updated_at :: timestamp

text \<open>A row of table \<^verbatim>\<open>synapses\<close> has the columns of a \<open>Synapse\<close>.\<close>

record db =
  neurons :: "neuron_row list"
  synapses :: "Synapse list"

datatype error =
    SQLITE_CONSTRAINT_PRIMARYKEY
  | SQLITE_CONSTRAINT_FOREIGNKEY
  | RangeError

subsection \<open>Schema migration\<close>

text \<open>
  The file the constructor opens: the rows of \<^verbatim>\<open>_meta\<close> as an association list
  (\<^verbatim>\<open>key\<close> is the primary key; a file without the table reads as the empty list once
  \<^verbatim>\<open>CREATE TABLE IF NOT EXISTS _meta\<close> has run), and the data tables, \<open>None\<close> as long
  as they have not been created.
\<close>

record store_file =
  meta :: "(string \<times> string) list"
  tables :: "db option"

definition SCHEMA_VERSION :: int where
  "SCHEMA_VERSION = 1"

definition is_whitespace :: "char \<Rightarrow> bool" where
  "is_whitespace c \<longleftrightarrow> c \<in> set [CHR 0x09, CHR 0x0A, CHR 0x0B, CHR 0x0C, CHR 0x0D, CHR '' '']"

definition is_digit :: "char \<Rightarrow> bool" where
  "is_digit c \<longleftrightarrow> c \<in> set ''0123456789''"

definition digit_value :: "char \<Rightarrow> int" where
  "digit_value c = of_char c - 48"

text \<open>
  \<^verbatim>\<open>parseInt(s, 10)\<close>: leading white space is skipped (the ASCII white space; a
  \<open>char\<close> is a byte), one sign is read, and the longest run of decimal digits that
  follows is the value. Without a digit the result is \<^verbatim>\<open>NaN\<close>, here \<open>None\<close>.
\<close>

definition parseInt :: "string \<Rightarrow> int option" where
  "parseInt s =
     (let t = dropWhile is_whitespace s;
          neg = (case t of c # _ \<Rightarrow> c = CHR ''-'' | [] \<Rightarrow> False);
          u = (case t of c # cs \<Rightarrow> if c = CHR ''-'' \<or> c = CHR ''+'' then cs else t | [] \<Rightarrow> t);
          ds = takeWhile is_digit u;
          v = foldl (\<lambda>acc c. acc * 10 + digit_value c) 0 ds
      in if ds = [] then None else Some (if neg then - v else v))"

text \<open>The comparison \<^verbatim>\<open>currentVersion < 1\<close> of numbers: false when one side is \<^verbatim>\<open>NaN\<close>.\<close>

definition js_less :: "int option \<Rightarrow> int \<Rightarrow> bool" where
  "js_less x n = (case x of None \<Rightarrow> False | Some v \<Rightarrow> v < n)"

definition empty_db :: db where
  "empty_db = \<lparr>neurons = [], synapses = []\<rparr>"

text \<open>\<^verbatim>\<open>INSERT OR REPLACE INTO _meta\<close>: the row of the key is replaced, or added.\<close>

fun meta_replace :: "string \<Rightarrow> string \<Rightarrow> (string \<times> string) list \<Rightarrow> (string \<times> string) list" where
  "meta_replace k v [] = [(k, v)]"
| "meta_replace k v ((k', v') # rest) =
     (if k' = k then (k, v) # rest else (k', v') # meta_replace k v rest)"

text \<open>\<^verbatim>\<open>String(SCHEMA_VERSION)\<close> for the version 1.\<close>

definition version_text :: string where
  "version_text = ''1''"

text \<open>
  \<^verbatim>\<open>migrate\<close> reads the stored version (0 without a row), and below version 1 creates
  the tables that are missing and records the version. It has no other branch, and no
  statement of it raises on a file it can read.
\<close>

definition migrate :: "store_file \<Rightarrow> error + store_file" where
  "migrate f =
     (let currentVersion =
            (case map_of (meta f) ''schema_version'' of
               Some v \<Rightarrow> parseInt v
             | None \<Rightarrow> Some 0)
      in if js_less currentVersion 1
         then Inr \<lparr>meta = meta_replace ''schema_version'' version_text (meta f),
                   tables = (case tables f of None \<Rightarrow> Some empty_db | Some t \<Rightarrow> Some t)\<rparr>
         else Inr f)"

text \<open>The constructor, once the file is open: it runs the migration.\<close>

definition open_store :: "store_file \<Rightarrow> error + store_file" where
  "open_store f = migrate f"

subsection \<open>Neuron CRUD\<close>

text \<open>
  \<^verbatim>\<open>rowToNeuron\<close>. A \<^verbatim>\<open>Buffer\<close> is an object and so truthy, also when empty; the
  bytes are copied into a fresh buffer, and \<^verbatim>\<open>new Float32Array(buffer)\<close> views all of
  it, raising \<^verbatim>\<open>RangeError\<close> when its length is no multiple of 4. A NULL column gives
  \<^verbatim>\<open>new Float32Array(0)\<close>.
\<close>

definition rowToNeuron :: "neuron_row \<Rightarrow> error + Neuron" where
  "rowToNeuron row =
     (case (case r_embedding row of
              Some b \<Rightarrow>
                if length b mod 4 = 0
                then Inr \<lparr>buffer = b, byteOffset = 0, elems = length b div 4\<rparr>
                else Inl RangeError
            | None \<Rightarrow> Inr \<lparr>buffer = [], byteOffset = 0, elems = 0\<rparr>) of
        Inl e \<Rightarrow> Inl e
      | Inr emb \<Rightarrow>
          Inr \<lparr>n_id = r_id row, content = r_content row, summary = r_summary row,
               embedding = emb, file_path = r_file_path row,
               start_line = r_start_line row, end_line = r_end_line row,
               n_type = r_type row, name = r_name row, language = r_language row,
               activation_count = r_activation_count row,
               last_activated = r_last_activated row,
               n_created_at = r_created_at row, updated_at = r_updated_at row\<rparr>)"

definition getNeuron :: "string \<Rightarrow> db \<Rightarrow> error + Neuron option" where
  "getNeuron ident d =
     (case find (\<lambda>r. r_id r = ident) (neurons d) of
        None \<Rightarrow> Inr None
      | Some row \<Rightarrow> (case rowToNeuron row of Inl e \<Rightarrow> Inl e | Inr n \<Rightarrow> Inr (Some n)))"

text \<open>
  \<^verbatim>\<open>createNeuron\<close>. A typed array is an object, so \<^verbatim>\<open>input.embedding\<close> is truthy and
  the BLOB is \<^verbatim>\<open>Buffer.from(input.embedding.buffer)\<close>: a buffer over the whole
  \<^verbatim>\<open>ArrayBuffer\<close> behind the view, whatever the view's offset and length. The plain
  \<^verbatim>\<open>INSERT\<close> raises when the id is already a primary key. The columns
  \<^verbatim>\<open>activation_count\<close> and \<^verbatim>\<open>last_activated\<close> take their defaults.
\<close>

definition createNeuron ::
  "string \<Rightarrow> timestamp \<Rightarrow> NeuronCreateInput \<Rightarrow> db \<Rightarrow> (error + Neuron option) \<times> db" where
  "createNeuron ident now input d =
     (let embeddingBuffer = Some (buffer (i_embedding input)) in
      if list_ex (\<lambda>r. r_id r = ident) (neurons d)
      then (Inl SQLITE_CONSTRAINT_PRIMARYKEY, d)
      else
        (let d' = d\<lparr>neurons := neurons d @
                    [\<lparr>r_id = ident, r_content = i_content input, r_summary = i_summary input,
                      r_embedding = embeddingBuffer, r_file_path = i_file_path input,
                      r_start_line = i_start_line input, r_end_line = i_end_line input,
                      r_type = i_type input, r_name = i_name input,
                      r_language = i_language input,
                      r_activation_count = 0, r_last_activated = None,
                      r_created_at = now, r_updated_at = now\<rparr>]\<rparr>
         in (getNeuron ident d', d')))"

subsection \<open>Arithmetic of the weight column\<close>

text \<open>
  \<^verbatim>\<open>weight + ?\<close> and \<^verbatim>\<open>weight - ?\<close> for a finite parameter, and SQLite's scalar
  \<^verbatim>\<open>MIN(c, x)\<close> and \<^verbatim>\<open>MAX(c, x)\<close> for a finite constant \<open>c\<close>. An infinity
  plus or minus a finite number is that infinity.
\<close>

fun sql_add :: "sql_real \<Rightarrow> real \<Rightarrow> sql_real" where
  "sql_add (Fin w) delta = Fin (w + delta)"
| "sql_add PosInf delta = PosInf"
| "sql_add NegInf delta = NegInf"

fun sql_sub :: "sql_real \<Rightarrow> real \<Rightarrow> sql_real" where
  "sql_sub (Fin w) delta = Fin (w - delta)"
| "sql_sub PosInf delta = PosInf"
| "sql_sub NegInf delta = NegInf"

fun sql_min :: "real \<Rightarrow> sql_real \<Rightarrow> sql_real" where
  "sql_min c (Fin w) = Fin (min c w)"
| "sql_min c PosInf = Fin c"
| "sql_min c NegInf = NegInf"

fun sql_max :: "real \<Rightarrow> sql_real \<Rightarrow> sql_real" where
  "sql_max c (Fin w) = Fin (max c w)"
| "sql_max c PosInf = PosInf"
| "sql_max c NegInf = Fin c"

subsection \<open>Synapse CRUD\<close>

definition rowToSynapse :: "Synapse \<Rightarrow> Synapse" where
  "rowToSynapse row =
     row\<lparr>metadata := (case metadata row of
                         Some m \<Rightarrow> if m = [] then None else Some m
                       | None \<Rightarrow> None)\<rparr>"

definition getSynapse :: "string \<Rightarrow> db \<Rightarrow> Synapse option" where
  "getSynapse ident d = map_option rowToSynapse (find (\<lambda>r. s_id r = ident) (synapses d))"

text \<open>
  The row that both insert statements bind, for a weight \<open>w\<close> that is not
  \<^verbatim>\<open>NaN\<close>; the other columns take their defaults.
\<close>

definition new_row :: "string \<Rightarrow> timestamp \<Rightarrow> SynapseCreateInput \<Rightarrow> sql_real \<Rightarrow> Synapse" where
  "new_row ident now input w =
     \<lparr>s_id = ident, source_id = i_source_id input, target_id = i_target_id input,
      weight = w, s_type = i_stype input, metadata = i_metadata input,
      fire_count = 0, last_fired = None, s_created_at = now\<rparr>"

definition same_key :: "string \<Rightarrow> string \<Rightarrow> SynapseType \<Rightarrow> Synapse \<Rightarrow> bool" where
  "same_key s t ty r \<longleftrightarrow> source_id r = s \<and> target_id r = t \<and> s_type r = ty"

definition is_neuron :: "string \<Rightarrow> db \<Rightarrow> bool" where
  "is_neuron ident d = list_ex (\<lambda>n. r_id n = ident) (neurons d)"

text \<open>
  \<^verbatim>\<open>INSERT OR IGNORE INTO synapses\<close> under the table's constraints: a row whose id
  (\<^verbatim>\<open>PRIMARY KEY\<close>) or whose triple (\<^verbatim>\<open>UNIQUE(source_id, target_id, type)\<close>) is
  taken is skipped without an error; the conflict clause does not cover the foreign keys
  (\<^verbatim>\<open>REFERENCES neurons(id)\<close>, enforced since the constructor sets
  \<^verbatim>\<open>foreign_keys = ON\<close>), so a row that would be inserted with an endpoint that is no
  neuron raises and nothing is written.
\<close>

definition insert_or_ignore :: "Synapse \<Rightarrow> db \<Rightarrow> error + db" where
  "insert_or_ignore row d =
     (if list_ex (\<lambda>r. s_id r = s_id row) (synapses d)
         \<or> list_ex (same_key (source_id row) (target_id row) (s_type row)) (synapses d)
      then Inr d
      else if \<not> (is_neuron (source_id row) d \<and> is_neuron (target_id row) d)
      then Inl SQLITE_CONSTRAINT_FOREIGNKEY
      else Inr (d\<lparr>synapses := synapses d @ [row]\<rparr>))"

text \<open>
  The statement with its parameters bound. A weight \<^verbatim>\<open>NaN\<close> is bound as
  \<^verbatim>\<open>NULL\<close>, which the column's \<^verbatim>\<open>NOT NULL\<close> refuses: under \<^verbatim>\<open>OR IGNORE\<close> the
  row is skipped without an error, before any other constraint is looked at.
\<close>

definition insert_statement ::
  "string \<Rightarrow> timestamp \<Rightarrow> SynapseCreateInput \<Rightarrow> db \<Rightarrow> error + db" where
  "insert_statement ident now input d =
     (case i_weight input of
        NaN \<Rightarrow> Inr d
      | Num w \<Rightarrow> insert_or_ignore (new_row ident now input w) d)"

definition createSynapse ::
  "string \<Rightarrow> timestamp \<Rightarrow> SynapseCreateInput \<Rightarrow> db \<Rightarrow> (error + Synapse option) \<times> db" where
  "createSynapse ident now input d =
     (case insert_statement ident now input d of
        Inl e \<Rightarrow> (Inl e, d)
      | Inr d' \<Rightarrow> (Inr (getSynapse ident d'), d'))"

text \<open>
  \<^verbatim>\<open>createSynapsesBatch\<close>: each input comes with the id drawn for it; the loop runs in
  one transaction, which is rolled back when a statement raises.
\<close>

fun insertMany :: "timestamp \<Rightarrow> (string \<times> SynapseCreateInput) list \<Rightarrow> db \<Rightarrow> error + db" where
  "insertMany now [] d = Inr d"
| "insertMany now ((ident, input) # items) d =
     (case insert_statement ident now input d of
        Inl e \<Rightarrow> Inl e
      | Inr d' \<Rightarrow> insertMany now items d')"

definition createSynapsesBatch ::
  "timestamp \<Rightarrow> (string \<times> SynapseCreateInput) list \<Rightarrow> db \<Rightarrow> (error + unit) \<times> db" where
  "createSynapsesBatch now items d =
     (case insertMany now items d of
        Inl e \<Rightarrow> (Inl e, d)
      | Inr d' \<Rightarrow> (Inr (), d'))"

text \<open>
  \<^verbatim>\<open>UPDATE synapses SET ... WHERE ...\<close>: every row the condition selects is replaced;
  the count of selected rows is the statement's \<^verbatim>\<open>changes\<close>.
\<close>

fun sql_update :: "(Synapse \<Rightarrow> bool) \<Rightarrow> (Synapse \<Rightarrow> Synapse) \<Rightarrow> Synapse list \<Rightarrow> nat \<times> Synapse list" where
  "sql_update wh st [] = (0, [])"
| "sql_update wh st (r # rs) =
     (case sql_update wh st rs of
        (n, rs') \<Rightarrow> if wh r then (Suc n, st r # rs') else (n, r # rs'))"

definition strengthenSynapse :: "timestamp \<Rightarrow> string \<Rightarrow> string \<Rightarrow> real \<Rightarrow> db \<Rightarrow> db" where
  "strengthenSynapse now sourceId targetId delta d =
     d\<lparr>synapses := snd (sql_update
        (\<lambda>r. source_id r = sourceId \<and> target_id r = targetId)
        (\<lambda>r. r\<lparr>weight := sql_min 1 (sql_add (weight r) delta),
                fire_count := fire_count r + 1,
                last_fired := Some now\<rparr>)
        (synapses d))\<rparr>"

definition weakenSynapse :: "string \<Rightarrow> string \<Rightarrow> real \<Rightarrow> db \<Rightarrow> db" where
  "weakenSynapse sourceId targetId delta d =
     d\<lparr>synapses := snd (sql_update
        (\<lambda>r. source_id r = sourceId \<and> target_id r = targetId)
        (\<lambda>r. r\<lparr>weight := sql_max 0 (sql_sub (weight r) delta)\<rparr>)
        (synapses d))\<rparr>"

text \<open>The condition of \<^verbatim>\<open>decayUnusedSynapses\<close>; \<open>now\<close> is \<^verbatim>\<open>julianday('now')\<close>.\<close>

definition decay_where :: "timestamp \<Rightarrow> real \<Rightarrow> Synapse \<Rightarrow> bool" where
  "decay_where now daysOld r =
     (case last_fired r of
        None \<Rightarrow> False
      | Some t \<Rightarrow> now - t > daysOld \<and> s_type r = Co_activation)"

definition decayUnusedSynapses :: "timestamp \<Rightarrow> real \<Rightarrow> real \<Rightarrow> db \<Rightarrow> nat \<times> db" where
  "decayUnusedSynapses now daysOld delta d =
     (case sql_update (decay_where now daysOld)
             (\<lambda>r. r\<lparr>weight := sql_max 0 (sql_sub (weight r) delta)\<rparr>) (synapses d) of
        (changes, rs) \<Rightarrow> (changes, d\<lparr>synapses := rs\<rparr>))"

text \<open>The default \<^verbatim>\<open>delta = 0.05\<close> of \<^verbatim>\<open>strengthenSynapse\<close>.\<close>

definition strengthen_default :: real where
  "strengthen_default = 5 / 100"

definition findOrCreateCoActivationSynapse ::
  "string \<Rightarrow> timestamp \<Rightarrow> string \<Rightarrow> string \<Rightarrow> db \<Rightarrow> (error + unit) \<times> db" where
  "findOrCreateCoActivationSynapse ident now sourceId targetId d =
     (case find (same_key sourceId targetId Co_activation) (synapses d) of
        Some existing \<Rightarrow>
          (Inr (), strengthenSynapse now sourceId targetId strengthen_default d)
      | None \<Rightarrow>
          (case createSynapse ident now
                  \<lparr>i_source_id = sourceId, i_target_id = targetId,
                   i_weight = Num (Fin (3 / 10)),
                   i_stype = Co_activation, i_metadata = None\<rparr> d of
             (Inl e, d') \<Rightarrow> (Inl e, d')
           | (Inr created, d') \<Rightarrow> (Inr (), d')))"

subsection \<open>Sequences of store operations\<close>

text \<open>
  The calls a client can make on the synapse table, and the store after a sequence of
  them. A call that raises leaves the store as the raising statement left it.
\<close>

datatype store_op =
    Op_createSynapse string timestamp SynapseCreateInput
  | Op_createSynapsesBatch timestamp "(string \<times> SynapseCreateInput) list"
  | Op_strengthenSynapse timestamp string string real
  | Op_weakenSynapse string string real
  | Op_decayUnusedSynapses timestamp real real
  | Op_findOrCreateCoActivationSynapse string timestamp string string

fun apply_op :: "store_op \<Rightarrow> db \<Rightarrow> db" where
  "apply_op (Op_createSynapse ident now input) d = snd (createSynapse ident now input d)"
| "apply_op (Op_createSynapsesBatch now items) d = snd (createSynapsesBatch now items d)"
| "apply_op (Op_strengthenSynapse now s t delta) d = strengthenSynapse now s t delta d"
| "apply_op (Op_weakenSynapse s t delta) d = weakenSynapse s t delta d"
| "apply_op (Op_decayUnusedSynapses now daysOld delta) d =
     snd (decayUnusedSynapses now daysOld delta d)"
| "apply_op (Op_findOrCreateCoActivationSynapse ident now s t) d =
     snd (findOrCreateCoActivationSynapse ident now s t d)"

fun run_ops :: "store_op list \<Rightarrow> db \<Rightarrow> db" where
  "run_ops [] d = d"
| "run_ops (op # ops) d = run_ops ops (apply_op op d)"

text \<open>The invariants of the synapse table that the specification names.\<close>

text \<open>A stored value that is finite and lies between 0 and 1.\<close>

fun in_unit_interval :: "sql_real \<Rightarrow> bool" where
  "in_unit_interval (Fin w) \<longleftrightarrow> 0 \<le> w \<and> w \<le> 1"
| "in_unit_interval PosInf \<longleftrightarrow> False"
| "in_unit_interval NegInf \<longleftrightarrow> False"

fun not_negative :: "sql_real \<Rightarrow> bool" where
  "not_negative (Fin w) \<longleftrightarrow> 0 \<le> w"
| "not_negative PosInf \<longleftrightarrow> True"
| "not_negative NegInf \<longleftrightarrow> False"

fun at_most_one :: "sql_real \<Rightarrow> bool" where
  "at_most_one (Fin w) \<longleftrightarrow> w \<le> 1"
| "at_most_one PosInf \<longleftrightarrow> False"
| "at_most_one NegInf \<longleftrightarrow> True"

text \<open>The weight a create call is given is a number between 0 and 1.\<close>

fun weight_in_range :: "number \<Rightarrow> bool" where
  "weight_in_range (Num w) \<longleftrightarrow> in_unit_interval w"
| "weight_in_range NaN \<longleftrightarrow> False"

definition weights_in_range :: "db \<Rightarrow> bool" where
  "weights_in_range d \<longleftrightarrow> list_all (\<lambda>r. in_unit_interval (weight r)) (synapses d)"

definition no_self_loops :: "db \<Rightarrow> bool" where
  "no_self_loops d \<longleftrightarrow> list_all (\<lambda>r. source_id r \<noteq> target_id r) (synapses d)"

text \<open>
  What the store leaves to its callers: an input weight between 0 and 1 and a delta
  that is not negative, and endpoints that differ.
\<close>

fun weights_admissible :: "store_op \<Rightarrow> bool" where
  "weights_admissible (Op_createSynapse ident now input) \<longleftrightarrow>
     weight_in_range (i_weight input)"
| "weights_admissible (Op_createSynapsesBatch now items) \<longleftrightarrow>
     list_all (\<lambda>item. weight_in_range (i_weight (snd item))) items"
| "weights_admissible (Op_strengthenSynapse now s t delta) \<longleftrightarrow> 0 \<le> delta"
| "weights_admissible (Op_weakenSynapse s t delta) \<longleftrightarrow> 0 \<le> delta"
| "weights_admissible (Op_decayUnusedSynapses now daysOld delta) \<longleftrightarrow> 0 \<le> delta"
| "weights_admissible (Op_findOrCreateCoActivationSynapse ident now s t) \<longleftrightarrow> True"

fun endpoints_distinct :: "store_op \<Rightarrow> bool" where
  "endpoints_distinct (Op_createSynapse ident now input) \<longleftrightarrow>
     i_source_id input \<noteq> i_target_id input"
| "endpoints_distinct (Op_createSynapsesBatch now items) \<longleftrightarrow>
     list_all (\<lambda>item. i_source_id (snd item) \<noteq> i_target_id (snd item)) items"
| "endpoints_distinct (Op_findOrCreateCoActivationSynapse ident now s t) \<longleftrightarrow> s \<noteq> t"
| "endpoints_distinct (Op_strengthenSynapse now s t delta) \<longleftrightarrow> True"
| "endpoints_distinct (Op_weakenSynapse s t delta) \<longleftrightarrow> True"
| "endpoints_distinct (Op_decayUnusedSynapses now daysOld delta) \<longleftrightarrow> True"

subsection \<open>Co-activation observed again and again\<close>

text \<open>
  The learner's \<open>observe_co_activation(a, b)\<close> is \<^verbatim>\<open>findOrCreateCoActivationSynapse\<close>;
  each call comes with the id it would give a new synapse and with its clock reading.
\<close>

fun observe_repeatedly :: "(string \<times> timestamp) list \<Rightarrow> string \<Rightarrow> string \<Rightarrow> db \<Rightarrow> db" where
  "observe_repeatedly [] a b d = d"
| "observe_repeatedly ((ident, now) # calls) a b d =
     observe_repeatedly calls a b (snd (findOrCreateCoActivationSynapse ident now a b d))"

text \<open>The weight of the co-activation synapse from \<open>a\<close> to \<open>b\<close>, when there is one.\<close>

definition co_weight :: "string \<Rightarrow> string \<Rightarrow> db \<Rightarrow> sql_real option" where
  "co_weight a b d = map_option weight (find (same_key a b Co_activation) (synapses d))"

text \<open>The input that \<^verbatim>\<open>findOrCreateCoActivationSynapse\<close> passes to \<^verbatim>\<open>createSynapse\<close>.\<close>

definition co_activation_input :: "string \<Rightarrow> string \<Rightarrow> SynapseCreateInput" where
  "co_activation_input a b =
     \<lparr>i_source_id = a, i_target_id = b, i_weight = Num (Fin (3 / 10)),
      i_stype = Co_activation, i_metadata = None\<rparr>"

text \<open>
  What a batch is given by its environment: ids that differ from each other and from
  the stored ones, and endpoints that are neurons.
\<close>

definition fresh_ids :: "(string \<times> SynapseCreateInput) list \<Rightarrow> db \<Rightarrow> bool" where
  "fresh_ids items d \<longleftrightarrow>
     distinct (map fst items)
     \<and> list_all (\<lambda>item. \<not> list_ex (\<lambda>r. s_id r = fst item) (synapses d)) items"

definition endpoints_exist :: "(string \<times> SynapseCreateInput) list \<Rightarrow> db \<Rightarrow> bool" where
  "endpoints_exist items d \<longleftrightarrow>
     list_all (\<lambda>item. is_neuron (i_source_id (snd item)) d
                    \<and> is_neuron (i_target_id (snd item)) d) items"

text \<open>An item of a batch that asks for the triple and carries a weight that can be stored.\<close>

definition asks_for :: "string \<Rightarrow> string \<Rightarrow> SynapseType \<Rightarrow> string \<times> SynapseCreateInput \<Rightarrow> bool" where
  "asks_for s t ty item \<longleftrightarrow>
     i_source_id (snd item) = s \<and> i_target_id (snd item) = t \<and> i_stype (snd item) = ty
     \<and> i_weight (snd item) \<noteq> NaN"

text \<open>The bytes of the embedding that a call returned, when it returned a neuron.\<close>

definition read_back_bytes :: "(error + Neuron option) \<Rightarrow> byte list option" where
  "read_back_bytes res =
     (case res of Inr (Some n) \<Rightarrow> Some (view_bytes (embedding n)) | _ \<Rightarrow> None)"

subsection \<open>Example stores and inputs\<close>

definition example_neuron :: "string \<Rightarrow> neuron_row" where
  "example_neuron ident =
     \<lparr>r_id = ident, r_content = ''export const x = 1'', r_summary = [],
      r_embedding = None, r_file_path = ''a.ts'', r_start_line = 1, r_end_line = 1,
      r_type = NVariable, r_name = ''x'', r_language = ''ts'',
      r_activation_count = 0, r_last_activated = None,
      r_created_at = 0, r_updated_at = 0\<rparr>"

definition example_synapse ::
  "string \<Rightarrow> string \<Rightarrow> string \<Rightarrow> SynapseType \<Rightarrow> real \<Rightarrow> timestamp option \<Rightarrow> Synapse" where
  "example_synapse ident s t ty w fired =
     \<lparr>s_id = ident, source_id = s, target_id = t, weight = Fin w, s_type = ty,
      metadata = None, fire_count = 0, last_fired = fired, s_created_at = 0\<rparr>"

definition example_input :: "string \<Rightarrow> string \<Rightarrow> SynapseType \<Rightarrow> real \<Rightarrow> SynapseCreateInput" where
  "example_input s t ty w =
     \<lparr>i_source_id = s, i_target_id = t, i_weight = Num (Fin w), i_stype = ty,
      i_metadata = None\<rparr>"

definition two_neurons :: db where
  "two_neurons =
     \<lparr>neurons = [example_neuron ''N1'', example_neuron ''N3''], synapses = []\<rparr>"

definition imports_edge :: db where
  "imports_edge =
     two_neurons\<lparr>synapses := [example_synapse ''S1'' ''N1'' ''N3'' Imports (1/2) None]\<rparr>"

text \<open>A structural and a co-activation synapse between the same two neurons.\<close>

definition coactivation_example :: db where
  "coactivation_example = two_neurons\<lparr>synapses :=
     [example_synapse ''S1'' ''N1'' ''N3'' Imports (1/2) None,
      example_synapse ''S2'' ''N1'' ''N3'' Co_activation (3/10) None]\<rparr>"

text \<open>
  Four synapses at the clock reading 100: fired ten days ago (one co-activation, one
  structural), never fired, and fired a week ago to the day.
\<close>

definition decay_example :: db where
  "decay_example = two_neurons\<lparr>synapses :=
     [example_synapse ''S1'' ''N1'' ''N3'' Co_activation (5/100) (Some 90),
      example_synapse ''S2'' ''N1'' ''N3'' Imports (1/2) (Some 90),
      example_synapse ''S3'' ''N3'' ''N1'' Co_activation (3/10) None,
      example_synapse ''S4'' ''N3'' ''N3'' Co_activation (3/10) (Some 93)]\<rparr>"

definition example_ops :: "store_op list" where
  "example_ops =
     [Op_createSynapse ''S2'' 1 (example_input ''N3'' ''N1'' Calls (9/10)),
      Op_createSynapsesBatch 2 [(''S3'', example_input ''N1'' ''N3'' Imports 1),
                                (''S4'', example_input ''N1'' ''N3'' Semantic 0)],
      Op_strengthenSynapse 3 ''N1'' ''N3'' (7/10),
      Op_weakenSynapse ''N3'' ''N1'' 2,
      Op_findOrCreateCoActivationSynapse ''S5'' 4 ''N1'' ''N3'',
      Op_decayUnusedSynapses 50 7 (1/100)]"

definition distinct_ops :: "store_op list" where
  "distinct_ops =
     [Op_createSynapse ''S2'' 1 (example_input ''N3'' ''N1'' Calls (9/10)),
      Op_createSynapsesBatch 2 [(''S3'', example_input ''N1'' ''N3'' Imports 1)],
      Op_findOrCreateCoActivationSynapse ''S5'' 4 ''N1'' ''N3'']"

definition fourteen_calls :: "(string \<times> timestamp) list" where
  "fourteen_calls = replicate 14 (''S9'', 7)"

definition thousand_calls :: "(string \<times> timestamp) list" where
  "thousand_calls = replicate 1000 (''S9'', 7)"

text \<open>A co-activation synapse of weight \<^verbatim>\<open>-Infinity\<close>, and an input of weight \<^verbatim>\<open>NaN\<close>.\<close>

definition minus_infinity_input :: SynapseCreateInput where
  "minus_infinity_input =
     \<lparr>i_source_id = ''N1'', i_target_id = ''N3'', i_weight = Num NegInf,
      i_stype = Co_activation, i_metadata = None\<rparr>"

definition nan_input :: SynapseCreateInput where
  "nan_input =
     \<lparr>i_source_id = ''N1'', i_target_id = ''N3'', i_weight = NaN,
      i_stype = Imports, i_metadata = None\<rparr>"

text \<open>
  A batch for the store \<open>imports_edge\<close>: a duplicate of the stored edge, an item of
  weight \<^verbatim>\<open>NaN\<close> and two items for one new triple.
\<close>

definition example_batch :: "(string \<times> SynapseCreateInput) list" where
  "example_batch =
     [(''S4'', example_input ''N1'' ''N3'' Imports 1),
      (''S5'', nan_input\<lparr>i_source_id := ''N3'', i_target_id := ''N1'', i_stype := Calls\<rparr>),
      (''S6'', example_input ''N3'' ''N1'' Calls (1/4)),
      (''S7'', example_input ''N3'' ''N1'' Calls (3/4))]"

text \<open>A file written by a later version of the schema.\<close>

definition newer_store :: store_file where
  "newer_store = \<lparr>meta = [(''schema_version'', ''2'')], tables = Some empty_db\<rparr>"

text \<open>
  An input whose embedding is the second float of a buffer of two, as
  \<^verbatim>\<open>new Float32Array([1, 2]).subarray(1)\<close> is: the buffer holds 1.0 and 2.0 in
  little-endian bytes, the view starts at byte 4 and has one element.
\<close>

definition subarray_input :: NeuronCreateInput where
  "subarray_input =
     \<lparr>i_content = ''export const x = 1'', i_summary = ''x'',
      i_embedding = \<lparr>buffer = [0, 0, 128, 63, 0, 0, 0, 64], byteOffset = 4, elems = 1\<rparr>,
      i_file_path = ''a.ts'', i_start_line = 1, i_end_line = 1, i_type = NVariable,
      i_name = ''x'', i_language = ''ts''\<rparr>"

section \<open>Properties\<close>

subsection \<open>Auxiliary facts\<close>

lemma sql_update_snd: "snd (sql_update wh st rs) = map (\<lambda>r. if wh r then st r else r) rs"
  by (induction rs) (auto split: prod.splits)

lemma sql_update_fst: "fst (sql_update wh st rs) = length (filter wh rs)"
  by (induction rs) (auto split: prod.splits)

lemma find_None_list_ex: "\<not> list_ex P xs \<Longrightarrow> find P xs = None"
  by (simp add: find_None_iff list_ex_iff)

lemma find_map_same:
  assumes "\<And>x. P (f x) = P x"
  shows "find P (map f xs) = map_option f (find P xs)"
  using assms by (induction xs) simp_all

lemma find_snoc:
  assumes "find P xs = None" and "P x"
  shows "find P (xs @ [x]) = Some x"
  using assms by (induction xs) (simp_all split: if_splits)

lemma insert_or_ignore_cases:
  assumes "insert_or_ignore row d = Inr d'"
  shows "d' = d \<or> (d' = d\<lparr>synapses := synapses d @ [row]\<rparr>
           \<and> \<not> list_ex (same_key (source_id row) (target_id row) (s_type row)) (synapses d)
           \<and> \<not> list_ex (\<lambda>r. s_id r = s_id row) (synapses d)
           \<and> is_neuron (source_id row) d \<and> is_neuron (target_id row) d)"
  using assms by (auto simp: insert_or_ignore_def split: if_splits)

lemma insert_statement_cases:
  assumes "insert_statement ident now input d = Inr d'"
  shows "d' = d \<or> (\<exists>w. i_weight input = Num w
           \<and> d' = d\<lparr>synapses := synapses d @ [new_row ident now input w]\<rparr>
           \<and> \<not> list_ex (same_key (i_source_id input) (i_target_id input) (i_stype input))
                 (synapses d)
           \<and> \<not> list_ex (\<lambda>r. s_id r = ident) (synapses d)
           \<and> is_neuron (i_source_id input) d \<and> is_neuron (i_target_id input) d)"
proof (cases "i_weight input")
  case NaN
  then show ?thesis using assms by (simp add: insert_statement_def)
next
  case (Num w)
  then have "insert_or_ignore (new_row ident now input w) d = Inr d'"
    using assms by (simp add: insert_statement_def)
  from insert_or_ignore_cases [OF this] Num show ?thesis
    by (auto simp: new_row_def)
qed

lemma insert_statement_all:
  assumes "insert_statement ident now input d = Inr d'" and "list_all P (synapses d)"
    and "\<And>w. i_weight input = Num w \<Longrightarrow> P (new_row ident now input w)"
  shows "list_all P (synapses d')"
  using insert_statement_cases [OF assms(1)] assms(2,3) by auto

lemma insert_statement_neurons:
  "insert_statement ident now input d = Inr d' \<Longrightarrow> neurons d' = neurons d"
  by (auto dest: insert_statement_cases)

lemma createSynapse_all:
  assumes "list_all P (synapses d)"
    and "\<And>w. i_weight input = Num w \<Longrightarrow> P (new_row ident now input w)"
  shows "list_all P (synapses (snd (createSynapse ident now input d)))"
proof (cases "insert_statement ident now input d")
  case (Inl e)
  then show ?thesis using assms(1) by (simp add: createSynapse_def)
next
  case (Inr d')
  then show ?thesis
    using insert_statement_all [OF Inr assms] by (simp add: createSynapse_def)
qed

lemma insertMany_all:
  assumes "insertMany now items d = Inr d'" and "list_all P (synapses d)"
    and "list_all (\<lambda>item. \<forall>w. i_weight (snd item) = Num w
                     \<longrightarrow> P (new_row (fst item) now (snd item) w)) items"
  shows "list_all P (synapses d')"
  using assms
proof (induction items arbitrary: d)
  case Nil
  then show ?case by simp
next
  case (Cons item items)
  obtain ident input where item: "item = (ident, input)" by (cases item)
  from Cons.prems(1) obtain d1 where
    step: "insert_statement ident now input d = Inr d1"
    and rest: "insertMany now items d1 = Inr d'"
    by (auto simp: item split: sum.splits)
  have "list_all P (synapses d1)"
    using insert_statement_all [OF step Cons.prems(2)] Cons.prems(3) by (simp add: item)
  then show ?case using Cons.IH [OF rest] Cons.prems(3) by simp
qed

lemma createSynapsesBatch_all:
  assumes "list_all P (synapses d)"
    and "list_all (\<lambda>item. \<forall>w. i_weight (snd item) = Num w
                     \<longrightarrow> P (new_row (fst item) now (snd item) w)) items"
  shows "list_all P (synapses (snd (createSynapsesBatch now items d)))"
proof (cases "insertMany now items d")
  case (Inl e)
  then show ?thesis using assms(1) by (simp add: createSynapsesBatch_def)
next
  case (Inr d')
  then show ?thesis
    using insertMany_all [OF Inr assms] by (simp add: createSynapsesBatch_def)
qed

lemma sql_update_all:
  assumes "list_all P rs" and "\<And>r. P r \<Longrightarrow> wh r \<Longrightarrow> P (st r)"
  shows "list_all P (snd (sql_update wh st rs))"
  using assms by (auto simp: sql_update_snd list_all_iff)

lemma strengthenSynapse_all:
  assumes "list_all P (synapses d)"
    and "\<And>r. P r \<Longrightarrow> P (r\<lparr>weight := sql_min 1 (sql_add (weight r) delta),
                fire_count := fire_count r + 1, last_fired := Some now\<rparr>)"
  shows "list_all P (synapses (strengthenSynapse now s t delta d))"
  unfolding strengthenSynapse_def using assms by (simp add: sql_update_all)

lemma weakenSynapse_all:
  assumes "list_all P (synapses d)"
    and "\<And>r. P r \<Longrightarrow> P (r\<lparr>weight := sql_max 0 (sql_sub (weight r) delta)\<rparr>)"
  shows "list_all P (synapses (weakenSynapse s t delta d))"
  unfolding weakenSynapse_def using assms by (simp add: sql_update_all)

lemma decayUnusedSynapses_all:
  assumes "list_all P (synapses d)"
    and "\<And>r. P r \<Longrightarrow> P (r\<lparr>weight := sql_max 0 (sql_sub (weight r) delta)\<rparr>)"
  shows "list_all P (synapses (snd (decayUnusedSynapses now daysOld delta d)))"
proof -
  have "synapses (snd (decayUnusedSynapses now daysOld delta d)) =
        snd (sql_update (decay_where now daysOld)
             (\<lambda>r. r\<lparr>weight := sql_max 0 (sql_sub (weight r) delta)\<rparr>) (synapses d))"
    by (simp add: decayUnusedSynapses_def split: prod.splits)
  then show ?thesis using assms by (simp add: sql_update_all)
qed

lemma findOrCreateCoActivationSynapse_all:
  assumes "list_all P (synapses d)"
    and "\<And>r. P r \<Longrightarrow> P (r\<lparr>weight := sql_min 1 (sql_add (weight r) strengthen_default),
                fire_count := fire_count r + 1, last_fired := Some now\<rparr>)"
    and "P (new_row ident now (co_activation_input s t) (Fin (3 / 10)))"
  shows "list_all P (synapses (snd (findOrCreateCoActivationSynapse ident now s t d)))"
proof (cases "find (same_key s t Co_activation) (synapses d)")
  case None
  have "snd (findOrCreateCoActivationSynapse ident now s t d) =
        snd (createSynapse ident now (co_activation_input s t) d)"
    using None
    by (simp add: findOrCreateCoActivationSynapse_def co_activation_input_def
        split: prod.splits sum.splits)
  moreover have "P (new_row ident now (co_activation_input s t) w)"
    if "i_weight (co_activation_input s t) = Num w" for w
    using that assms(3) by (simp add: co_activation_input_def)
  ultimately show ?thesis using createSynapse_all [OF assms(1)] by simp
next
  case (Some r)
  then show ?thesis
    using assms(1,2)
    by (simp add: findOrCreateCoActivationSynapse_def strengthenSynapse_all)
qed

lemma in_unit_interval_strengthen:
  "in_unit_interval x \<Longrightarrow> 0 \<le> delta \<Longrightarrow> in_unit_interval (sql_min 1 (sql_add x delta))"
  by (cases x) auto

lemma in_unit_interval_weaken:
  "in_unit_interval x \<Longrightarrow> 0 \<le> delta \<Longrightarrow> in_unit_interval (sql_max 0 (sql_sub x delta))"
  by (cases x) auto

lemma weight_in_range_Num: "weight_in_range n \<Longrightarrow> n = Num w \<Longrightarrow> in_unit_interval w"
  by simp

lemma apply_op_weights:
  assumes "weights_in_range d" and "weights_admissible op"
  shows "weights_in_range (apply_op op d)"
proof (cases op)
  case (Op_createSynapse ident now input)
  then show ?thesis
    using assms unfolding weights_in_range_def
    by (auto simp: new_row_def intro!: createSynapse_all)
next
  case (Op_createSynapsesBatch now items)
  then have "list_all (\<lambda>item. \<forall>w. i_weight (snd item) = Num w
               \<longrightarrow> in_unit_interval (weight (new_row (fst item) now (snd item) w))) items"
    using assms(2) by (auto simp: list_all_iff new_row_def)
  then show ?thesis
    using assms(1) Op_createSynapsesBatch unfolding weights_in_range_def
    by (auto intro!: createSynapsesBatch_all)
next
  case (Op_strengthenSynapse now s t delta)
  then show ?thesis
    using assms unfolding weights_in_range_def
    by (auto simp: in_unit_interval_strengthen intro!: strengthenSynapse_all)
next
  case (Op_weakenSynapse s t delta)
  then show ?thesis
    using assms unfolding weights_in_range_def
    by (auto simp: in_unit_interval_weaken intro!: weakenSynapse_all)
next
  case (Op_decayUnusedSynapses now daysOld delta)
  then show ?thesis
    using assms unfolding weights_in_range_def
    by (auto simp: in_unit_interval_weaken intro!: decayUnusedSynapses_all)
next
  case (Op_findOrCreateCoActivationSynapse ident now s t)
  then show ?thesis
    using assms unfolding weights_in_range_def
    by (auto simp: new_row_def strengthen_default_def in_unit_interval_strengthen
             intro!: findOrCreateCoActivationSynapse_all)
qed

lemma apply_op_loops:
  assumes "no_self_loops d" and "endpoints_distinct op"
  shows "no_self_loops (apply_op op d)"
proof (cases op)
  case (Op_createSynapsesBatch now items)
  then have "list_all (\<lambda>item. \<forall>w. i_weight (snd item) = Num w
               \<longrightarrow> source_id (new_row (fst item) now (snd item) w)
                     \<noteq> target_id (new_row (fst item) now (snd item) w)) items"
    using assms(2) by (auto simp: list_all_iff new_row_def)
  then show ?thesis
    using assms(1) Op_createSynapsesBatch unfolding no_self_loops_def
    by (auto intro!: createSynapsesBatch_all)
qed (use assms in \<open>auto simp: no_self_loops_def new_row_def co_activation_input_def
           intro!: createSynapse_all strengthenSynapse_all
                   weakenSynapse_all decayUnusedSynapses_all
                   findOrCreateCoActivationSynapse_all\<close>)

subsection \<open>Weights between 0 and 1\<close>

text \<open>
  Claim C1, amended. The store does not bring a weight into range when a synapse is
  created: \<^verbatim>\<open>createSynapse\<close> and \<^verbatim>\<open>createSynapsesBatch\<close> write the weight they
  are given, and the updates clamp on one side only (\<^verbatim>\<open>strengthenSynapse\<close> at 1,
  \<^verbatim>\<open>weakenSynapse\<close> and \<^verbatim>\<open>decayUnusedSynapses\<close> at 0). What holds is this: when
  every weight passed to a create call lies between 0 and 1 and no delta is negative,
  then after any sequence of create, batch, strengthen, weaken, decay and
  co-activation calls on a store whose weights lie between 0 and 1, every stored
  weight lies between 0 and 1.
\<close>

theorem weights_in_range_preserved:
  assumes "weights_in_range d" and "list_all weights_admissible ops"
  shows "weights_in_range (run_ops ops d)"
  using assms by (induction ops arbitrary: d) (simp_all add: apply_op_weights)

theorem weights_in_range_preserved_witness:
  "weights_in_range imports_edge \<and> list_all weights_admissible example_ops
   \<and> weights_in_range (run_ops example_ops imports_edge)"
proof -
  have h1: "weights_in_range imports_edge"
    by (simp add: weights_in_range_def imports_edge_def two_neurons_def example_synapse_def)
  have h2: "list_all weights_admissible example_ops"
    by (simp add: example_ops_def example_input_def)
  from weights_in_range_preserved [OF h1 h2] h1 h2 show ?thesis by simp
qed

theorem create_out_of_range_weight_counterexample:
  "weights_in_range two_neurons
   \<and> \<not> weights_in_range
         (run_ops [Op_createSynapse ''S1'' 0 (example_input ''N1'' ''N3'' Imports (3/2))]
            two_neurons)"
  by (simp add: weights_in_range_def two_neurons_def example_input_def example_neuron_def
      createSynapse_def insert_statement_def insert_or_ignore_def new_row_def is_neuron_def same_key_def)

subsection \<open>Observing a co-activation\<close>

lemma find_strengthen:
  "find (same_key a b ty) (synapses (strengthenSynapse now s t delta d)) =
   map_option (\<lambda>r. if source_id r = s \<and> target_id r = t
                    then r\<lparr>weight := sql_min 1 (sql_add (weight r) delta),
                           fire_count := fire_count r + 1, last_fired := Some now\<rparr>
                    else r)
     (find (same_key a b ty) (synapses d))"
  unfolding strengthenSynapse_def
  by (simp add: sql_update_snd find_map_same same_key_def)

lemma observe_existing:
  assumes "find (same_key a b Co_activation) (synapses d) = Some r"
  shows "fst (findOrCreateCoActivationSynapse ident now a b d) = Inr ()"
    and "find (same_key a b Co_activation)
           (synapses (snd (findOrCreateCoActivationSynapse ident now a b d))) =
         Some (r\<lparr>weight := sql_min 1 (sql_add (weight r) (5 / 100)),
                 fire_count := fire_count r + 1, last_fired := Some now\<rparr>)"
proof -
  have key: "source_id r = a \<and> target_id r = b"
    using assms by (auto simp: find_Some_iff same_key_def)
  show "fst (findOrCreateCoActivationSynapse ident now a b d) = Inr ()"
    using assms by (simp add: findOrCreateCoActivationSynapse_def)
  show "find (same_key a b Co_activation)
           (synapses (snd (findOrCreateCoActivationSynapse ident now a b d))) =
         Some (r\<lparr>weight := sql_min 1 (sql_add (weight r) (5 / 100)),
                 fire_count := fire_count r + 1, last_fired := Some now\<rparr>)"
    using assms key
    by (simp add: findOrCreateCoActivationSynapse_def find_strengthen strengthen_default_def)
qed

lemma observe_absent:
  assumes "find (same_key a b Co_activation) (synapses d) = None"
    and "\<not> list_ex (\<lambda>r. s_id r = ident) (synapses d)"
    and "is_neuron a d" and "is_neuron b d"
  shows "findOrCreateCoActivationSynapse ident now a b d =
         (Inr (), d\<lparr>synapses := synapses d @
                      [new_row ident now (co_activation_input a b) (Fin (3 / 10))]\<rparr>)"
proof -
  have "\<not> list_ex (same_key a b Co_activation) (synapses d)"
    using assms(1) by (simp add: find_None_iff list_ex_iff)
  then have "insert_statement ident now (co_activation_input a b) d =
        Inr (d\<lparr>synapses := synapses d @
                  [new_row ident now (co_activation_input a b) (Fin (3 / 10))]\<rparr>)"
    using assms(2-4)
    by (simp add: insert_statement_def insert_or_ignore_def new_row_def
        co_activation_input_def)
  then show ?thesis
    using assms(1)
    by (simp add: findOrCreateCoActivationSynapse_def createSynapse_def
        co_activation_input_def)
qed

lemma observe_step:
  assumes "co_weight a b d = Some x"
  shows "co_weight a b (snd (findOrCreateCoActivationSynapse ident now a b d)) =
         Some (sql_min 1 (sql_add x (5 / 100)))"
proof -
  from assms obtain r where r: "find (same_key a b Co_activation) (synapses d) = Some r"
    and x: "weight r = x"
    by (auto simp: co_weight_def)
  show ?thesis
    using observe_existing(2) [OF r, of ident now] x by (simp add: co_weight_def)
qed

lemma at_most_one_sql_min: "at_most_one (sql_min 1 x)"
  by (cases x) simp_all

lemma observe_repeatedly_at_most_one:
  assumes "co_weight a b d = Some x" and "calls \<noteq> [] \<or> at_most_one x"
  shows "\<exists>y. co_weight a b (observe_repeatedly calls a b d) = Some y \<and> at_most_one y"
  using assms
proof (induction calls arbitrary: d x)
  case Nil
  then show ?case by simp
next
  case (Cons call calls)
  obtain ident now where call: "call = (ident, now)" by (cases call)
  have "co_weight a b (snd (findOrCreateCoActivationSynapse ident now a b d)) =
        Some (sql_min 1 (sql_add x (5 / 100)))"
    by (rule observe_step [OF Cons.prems(1)])
  from Cons.IH [OF this] at_most_one_sql_min show ?case by (simp add: call)
qed

lemma observe_repeatedly_minus_infinity:
  assumes "co_weight a b d = Some NegInf"
  shows "co_weight a b (observe_repeatedly calls a b d) = Some NegInf"
  using assms
proof (induction calls arbitrary: d)
  case Nil
  then show ?case by simp
next
  case (Cons call calls)
  obtain ident now where call: "call = (ident, now)" by (cases call)
  have "co_weight a b (snd (findOrCreateCoActivationSynapse ident now a b d)) = Some NegInf"
    using observe_step [OF Cons.prems, of ident now] by simp
  from Cons.IH [OF this] show ?case by (simp add: call)
qed

text \<open>
  On finite weights, in real arithmetic: \<open>n\<close> calls add \<open>0.05 n\<close>, up to 1.
\<close>

lemma observe_repeatedly_weight:
  assumes "co_weight a b d = Some (Fin w)"
  shows "co_weight a b (observe_repeatedly calls a b d) =
         Some (Fin (if calls = [] then w else min 1 (w + real (length calls) * (5 / 100))))"
  using assms
proof (induction calls arbitrary: d w)
  case Nil
  then show ?case by simp
next
  case (Cons call calls)
  obtain ident now where call: "call = (ident, now)" by (cases call)
  have step: "co_weight a b (snd (findOrCreateCoActivationSynapse ident now a b d)) =
        Some (Fin (min 1 (w + 5 / 100)))"
    using observe_step [OF Cons.prems, of ident now] by simp
  have "min 1 (min 1 (w + 5 / 100) + real (length calls) * (5 / 100)) =
        min 1 (w + (1 + real (length calls)) * (5 / 100))"
    by (auto simp: min_def field_simps)
  then show ?case
    using Cons.IH [OF step] by (simp add: call)
qed

text \<open>
  Claim C2, amended. \<^verbatim>\<open>findOrCreateCoActivationSynapse a b\<close>: when a co-activation
  synapse from \<open>a\<close> to \<open>b\<close> exists, the call succeeds and the weight of that synapse
  becomes \<^verbatim>\<open>MIN(1.0, weight + 0.05)\<close>, for a finite weight \<open>w\<close> the minimum of 1 and
  \<open>w + 0.05\<close>; when none exists (and \<open>a\<close> and \<open>b\<close> are neurons, the id drawn is
  new), the call succeeds and adds one synapse \<open>(a, b, co_activation)\<close> of weight
  exactly 0.3. After a call the weight is never above 1, whatever it was before. From
  a weight \<open>w\<close> between 0 and 1, the weight is exactly 1 from the
  \<open>\<lceil>20 (1 - w)\<rceil>\<close>-th call on. The last statement is not made for every starting
  weight: the store keeps a weight of \<^verbatim>\<open>-Infinity\<close> that it was given, and no call
  changes it.
\<close>

theorem observe_co_activation:
  "(find (same_key a b Co_activation) (synapses d) = Some r \<longrightarrow>
      fst (findOrCreateCoActivationSynapse ident now a b d) = Inr ()
    \<and> co_weight a b (snd (findOrCreateCoActivationSynapse ident now a b d)) =
        Some (sql_min 1 (sql_add (weight r) (5 / 100)))
    \<and> (weight r = Fin w0 \<longrightarrow>
         co_weight a b (snd (findOrCreateCoActivationSynapse ident now a b d)) =
           Some (Fin (min 1 (w0 + 5 / 100)))))
 \<and> (find (same_key a b Co_activation) (synapses d0) = None
      \<and> \<not> list_ex (\<lambda>r. s_id r = ident0) (synapses d0) \<and> is_neuron a d0 \<and> is_neuron b d0 \<longrightarrow>
      fst (findOrCreateCoActivationSynapse ident0 now0 a b d0) = Inr ()
    \<and> synapses (snd (findOrCreateCoActivationSynapse ident0 now0 a b d0)) =
        synapses d0 @ [new_row ident0 now0 (co_activation_input a b) (Fin (3 / 10))]
    \<and> co_weight a b (snd (findOrCreateCoActivationSynapse ident0 now0 a b d0)) =
        Some (Fin (3 / 10)))
 \<and> (co_weight a b d = Some x \<and> calls \<noteq> [] \<longrightarrow>
      (\<exists>y. co_weight a b (observe_repeatedly calls a b d) = Some y \<and> at_most_one y))
 \<and> (co_weight a b d = Some (Fin w) \<and> 0 \<le> w \<and> w \<le> 1
      \<and> nat \<lceil>(1 - w) * 20\<rceil> \<le> length calls \<longrightarrow>
      co_weight a b (observe_repeatedly calls a b d) = Some (Fin 1))"
proof (intro conjI impI)
  assume r: "find (same_key a b Co_activation) (synapses d) = Some r"
  show "fst (findOrCreateCoActivationSynapse ident now a b d) = Inr ()"
    by (rule observe_existing(1) [OF r])
  show step: "co_weight a b (snd (findOrCreateCoActivationSynapse ident now a b d)) =
        Some (sql_min 1 (sql_add (weight r) (5 / 100)))"
    using observe_existing(2) [OF r, of ident now] by (simp add: co_weight_def)
  assume "weight r = Fin w0"
  then show "co_weight a b (snd (findOrCreateCoActivationSynapse ident now a b d)) =
           Some (Fin (min 1 (w0 + 5 / 100)))"
    using step by simp
next
  assume h: "find (same_key a b Co_activation) (synapses d0) = None
      \<and> \<not> list_ex (\<lambda>r. s_id r = ident0) (synapses d0) \<and> is_neuron a d0 \<and> is_neuron b d0"
  then have run: "findOrCreateCoActivationSynapse ident0 now0 a b d0 =
         (Inr (), d0\<lparr>synapses := synapses d0 @
                       [new_row ident0 now0 (co_activation_input a b) (Fin (3 / 10))]\<rparr>)"
    by (intro observe_absent) simp_all
  show "fst (findOrCreateCoActivationSynapse ident0 now0 a b d0) = Inr ()"
    by (simp add: run)
  show "synapses (snd (findOrCreateCoActivationSynapse ident0 now0 a b d0)) =
        synapses d0 @ [new_row ident0 now0 (co_activation_input a b) (Fin (3 / 10))]"
    by (simp add: run)
  have "same_key a b Co_activation (new_row ident0 now0 (co_activation_input a b) (Fin (3 / 10)))"
    by (simp add: same_key_def new_row_def co_activation_input_def)
  then have "find (same_key a b Co_activation)
               (synapses d0 @ [new_row ident0 now0 (co_activation_input a b) (Fin (3 / 10))]) =
             Some (new_row ident0 now0 (co_activation_input a b) (Fin (3 / 10)))"
    using h by (intro find_snoc) simp_all
  then show "co_weight a b (snd (findOrCreateCoActivationSynapse ident0 now0 a b d0)) =
        Some (Fin (3 / 10))"
    by (simp add: run co_weight_def new_row_def)
next
  assume "co_weight a b d = Some x \<and> calls \<noteq> []"
  then show "\<exists>y. co_weight a b (observe_repeatedly calls a b d) = Some y \<and> at_most_one y"
    by (intro observe_repeatedly_at_most_one) simp_all
next
  assume h: "co_weight a b d = Some (Fin w) \<and> 0 \<le> w \<and> w \<le> 1
      \<and> nat \<lceil>(1 - w) * 20\<rceil> \<le> length calls"
  have "(1 - w) * 20 \<le> real (nat \<lceil>(1 - w) * 20\<rceil>)"
    by (rule real_nat_ceiling_ge)
  also have "\<dots> \<le> real (length calls)"
  proof -
    from h have "nat \<lceil>(1 - w) * 20\<rceil> \<le> length calls" by blast
    then show ?thesis by (simp only: of_nat_le_iff)
  qed
  finally have ge: "1 \<le> w + real (length calls) * (5 / 100)" by simp
  show "co_weight a b (observe_repeatedly calls a b d) = Some (Fin 1)"
  proof (cases "calls = []")
    case True
    then have "w = 1" using ge h by simp
    then show ?thesis using h True by simp
  next
    case False
    then show ?thesis
      using observe_repeatedly_weight [of a b d w calls] h ge by simp
  qed
qed

theorem observe_co_activation_witness:
  "co_weight ''N1'' ''N3'' two_neurons = None
   \<and> co_weight ''N1'' ''N3''
        (snd (findOrCreateCoActivationSynapse ''S1'' 1 ''N1'' ''N3'' two_neurons))
        = Some (Fin (3/10))
   \<and> co_weight ''N1'' ''N3'' coactivation_example = Some (Fin (3/10))
   \<and> co_weight ''N1'' ''N3''
        (snd (findOrCreateCoActivationSynapse ''S3'' 5 ''N1'' ''N3'' coactivation_example))
        = Some (Fin (35/100))
   \<and> fourteen_calls \<noteq> []
   \<and> nat \<lceil>(1 - 3/10) * (20::real)\<rceil> \<le> length fourteen_calls
   \<and> co_weight ''N1'' ''N3'' (observe_repeatedly fourteen_calls ''N1'' ''N3'' coactivation_example)
        = Some (Fin 1)
   \<and> at_most_one (Fin 1)"
proof -
  have a: "find (same_key ''N1'' ''N3'' Co_activation) (synapses coactivation_example) =
           Some (example_synapse ''S2'' ''N1'' ''N3'' Co_activation (3/10) None)"
    by (simp add: coactivation_example_def two_neurons_def example_synapse_def same_key_def)
  have b: "find (same_key ''N1'' ''N3'' Co_activation) (synapses two_neurons) = None"
    "\<not> list_ex (\<lambda>r. s_id r = ''S1'') (synapses two_neurons)"
    "is_neuron ''N1'' two_neurons" "is_neuron ''N3'' two_neurons"
    by (simp_all add: two_neurons_def is_neuron_def example_neuron_def)
  have c: "co_weight ''N1'' ''N3'' coactivation_example = Some (Fin (3/10))"
    by (simp add: co_weight_def a example_synapse_def)
  have c0: "co_weight ''N1'' ''N3'' two_neurons = None"
    by (simp add: co_weight_def b)
  have e: "fourteen_calls \<noteq> []" "nat \<lceil>(1 - 3/10) * (20::real)\<rceil> \<le> length fourteen_calls"
    by (simp_all add: fourteen_calls_def)
  have w: "weight (example_synapse ''S2'' ''N1'' ''N3'' Co_activation (3/10) None) = Fin (3/10)"
    by (simp add: example_synapse_def)
  have r: "(0::real) \<le> 3/10" "(3::real)/10 \<le> 1" by simp_all
  note T = observe_co_activation
    [where a = "''N1''" and b = "''N3''" and d = coactivation_example
       and r = "example_synapse ''S2'' ''N1'' ''N3'' Co_activation (3/10) None"
       and ?w0.0 = "3/10"
       and ident = "''S3''" and now = 5
       and ?d0.0 = two_neurons and ?ident0.0 = "''S1''" and ?now0.0 = 1
       and x = "Fin (3/10)" and w = "3/10" and calls = fourteen_calls]
  have n: "min 1 ((3::real) / 10 + 5 / 100) = 35 / 100" by simp
  from T a b c c0 e w r show ?thesis unfolding n by (simp del: observe_repeatedly.simps)
qed

theorem minus_infinity_never_saturates_counterexample:
  "co_weight ''N1'' ''N3'' (snd (createSynapse ''S1'' 0 minus_infinity_input two_neurons))
     = Some NegInf
   \<and> length thousand_calls = 1000
   \<and> co_weight ''N1'' ''N3''
       (observe_repeatedly thousand_calls ''N1'' ''N3''
          (snd (createSynapse ''S1'' 0 minus_infinity_input two_neurons)))
     = Some NegInf
   \<and> NegInf \<noteq> Fin 1"
proof -
  have start: "co_weight ''N1'' ''N3''
                 (snd (createSynapse ''S1'' 0 minus_infinity_input two_neurons)) = Some NegInf"
    by (simp add: co_weight_def createSynapse_def insert_statement_def insert_or_ignore_def
        new_row_def minus_infinity_input_def two_neurons_def example_neuron_def
        is_neuron_def same_key_def)
  from observe_repeatedly_minus_infinity [OF start, of thousand_calls] start
  show ?thesis by (simp add: thousand_calls_def)
qed

subsection \<open>Insert if absent\<close>

lemma insert_statement_key:
  assumes "insert_statement ident now input d = Inr d'"
    and "list_ex (same_key s t ty) (synapses d)"
  shows "filter (same_key s t ty) (synapses d') = filter (same_key s t ty) (synapses d)
         \<and> list_ex (same_key s t ty) (synapses d')"
proof -
  from insert_statement_cases [OF assms(1)] show ?thesis
  proof
    assume "d' = d"
    then show ?thesis using assms(2) by simp
  next
    assume "\<exists>w. i_weight input = Num w
           \<and> d' = d\<lparr>synapses := synapses d @ [new_row ident now input w]\<rparr>
           \<and> \<not> list_ex (same_key (i_source_id input) (i_target_id input) (i_stype input))
                 (synapses d)
           \<and> \<not> list_ex (\<lambda>r. s_id r = ident) (synapses d)
           \<and> is_neuron (i_source_id input) d \<and> is_neuron (i_target_id input) d"
    then obtain w where d': "d' = d\<lparr>synapses := synapses d @ [new_row ident now input w]\<rparr>"
      and absent: "\<not> list_ex (same_key (i_source_id input) (i_target_id input) (i_stype input))
                 (synapses d)"
      by blast
    have "\<not> same_key s t ty (new_row ident now input w)"
    proof
      assume "same_key s t ty (new_row ident now input w)"
      then have "same_key (i_source_id input) (i_target_id input) (i_stype input)
                 = same_key s t ty"
        by (auto simp: same_key_def new_row_def fun_eq_iff)
      then show False using absent assms(2) by simp
    qed
    then show ?thesis using d' assms(2) by simp
  qed
qed

lemma insertMany_key:
  assumes "insertMany now items d = Inr d'" and "list_ex (same_key s t ty) (synapses d)"
  shows "filter (same_key s t ty) (synapses d') = filter (same_key s t ty) (synapses d)"
  using assms
proof (induction items arbitrary: d)
  case Nil
  then show ?case by simp
next
  case (Cons item items)
  obtain ident input where item: "item = (ident, input)" by (cases item)
  from Cons.prems(1) obtain d1 where
    step: "insert_statement ident now input d = Inr d1"
    and rest: "insertMany now items d1 = Inr d'"
    by (auto simp: item split: sum.splits)
  from insert_statement_key [OF step Cons.prems(2)] Cons.IH [OF rest] show ?case by simp
qed

lemma insertMany_duplicates:
  assumes "list_all (\<lambda>item. list_ex (same_key (i_source_id (snd item)) (i_target_id (snd item))
                       (i_stype (snd item))) (synapses d)) items"
  shows "insertMany now items d = Inr d"
  using assms
proof (induction items)
  case Nil
  then show ?case by simp
next
  case (Cons item items)
  obtain ident input where item: "item = (ident, input)" by (cases item)
  have "insert_statement ident now input d = Inr d"
    using Cons.prems
    by (simp add: item insert_statement_def insert_or_ignore_def new_row_def
        split: number.splits)
  then show ?case using Cons by (simp add: item)
qed

lemma insert_statement_inserts:
  assumes "i_weight input = Num w"
    and "\<not> list_ex (same_key (i_source_id input) (i_target_id input) (i_stype input))
            (synapses d)"
    and "\<not> list_ex (\<lambda>r. s_id r = ident) (synapses d)"
    and "is_neuron (i_source_id input) d" and "is_neuron (i_target_id input) d"
  shows "insert_statement ident now input d =
         Inr (d\<lparr>synapses := synapses d @ [new_row ident now input w]\<rparr>)"
  using assms by (simp add: insert_statement_def insert_or_ignore_def new_row_def)

lemma insert_statement_succeeds:
  assumes "is_neuron (i_source_id input) d" and "is_neuron (i_target_id input) d"
  shows "\<exists>d'. insert_statement ident now input d = Inr d'"
  using assms
  by (simp add: insert_statement_def insert_or_ignore_def new_row_def split: number.splits)

lemma endpoints_exist_neurons:
  "neurons d' = neurons d \<Longrightarrow> endpoints_exist items d' = endpoints_exist items d"
  by (simp add: endpoints_exist_def is_neuron_def)

lemma insertMany_succeeds:
  assumes "endpoints_exist items d"
  shows "\<exists>d'. insertMany now items d = Inr d'"
  using assms
proof (induction items arbitrary: d)
  case Nil
  then show ?case by simp
next
  case (Cons item items)
  obtain ident input where item: "item = (ident, input)" by (cases item)
  from Cons.prems obtain d1 where step: "insert_statement ident now input d = Inr d1"
    using insert_statement_succeeds [of input d ident now]
    by (auto simp: item endpoints_exist_def)
  have "endpoints_exist items d1"
    using Cons.prems endpoints_exist_neurons [OF insert_statement_neurons [OF step], of items]
    by (simp add: endpoints_exist_def)
  from Cons.IH [OF this] step show ?case by (simp add: item)
qed

lemma same_key_new_row:
  "same_key s t ty (new_row ident now input w) \<longleftrightarrow>
     i_source_id input = s \<and> i_target_id input = t \<and> i_stype input = ty"
  by (simp add: same_key_def new_row_def)

lemma insertMany_adds_nothing_unasked:
  assumes "insertMany now items d = Inr d'"
    and "\<not> list_ex (same_key s t ty) (synapses d)"
    and "find (asks_for s t ty) items = None"
  shows "\<not> list_ex (same_key s t ty) (synapses d')"
  using assms
proof (induction items arbitrary: d)
  case Nil
  then show ?case by simp
next
  case (Cons item items)
  obtain ident input where item: "item = (ident, input)" by (cases item)
  from Cons.prems(1) obtain d1 where
    step: "insert_statement ident now input d = Inr d1"
    and rest: "insertMany now items d1 = Inr d'"
    by (auto simp: item split: sum.splits)
  from Cons.prems(3) have no: "\<not> asks_for s t ty (ident, input)"
    and tail: "find (asks_for s t ty) items = None"
    by (simp_all add: item split: if_splits)
  have "\<not> list_ex (same_key s t ty) (synapses d1)"
    using insert_statement_cases [OF step] Cons.prems(2) no
    by (auto simp: asks_for_def same_key_new_row)
  from Cons.IH [OF rest this tail] show ?case .
qed

lemma insertMany_inserts:
  assumes "fresh_ids items d" and "endpoints_exist items d"
    and "\<not> list_ex (same_key s t ty) (synapses d)"
    and "find (asks_for s t ty) items = Some (ident, input)"
    and "i_weight input = Num w"
  shows "\<exists>d'. insertMany now items d = Inr d'
           \<and> filter (same_key s t ty) (synapses d') = [new_row ident now input w]"
  using assms
proof (induction items arbitrary: d)
  case Nil
  then show ?case by simp
next
  case (Cons item items)
  obtain i0 in0 where item: "item = (i0, in0)" by (cases item)
  have ends0: "is_neuron (i_source_id in0) d" "is_neuron (i_target_id in0) d"
    and ends: "endpoints_exist items d"
    using Cons.prems(2) by (simp_all add: endpoints_exist_def item)
  have fresh0: "\<not> list_ex (\<lambda>r. s_id r = i0) (synapses d)"
    and other: "i0 \<notin> fst ` set items"
    and fresh: "fresh_ids items d"
    using Cons.prems(1) by (simp_all add: fresh_ids_def item)
  have none: "filter (same_key s t ty) (synapses d) = []"
    using Cons.prems(3) by (simp add: list_ex_iff filter_empty_conv)
  show ?case
  proof (cases "asks_for s t ty (i0, in0)")
    case True
    then have here: "ident = i0" "input = in0"
      using Cons.prems(4) by (simp_all add: item)
    have key: "i_source_id in0 = s" "i_target_id in0 = t" "i_stype in0 = ty"
      using True by (simp_all add: asks_for_def)
    have step: "insert_statement i0 now in0 d =
                Inr (d\<lparr>synapses := synapses d @ [new_row i0 now in0 w]\<rparr>)"
      using Cons.prems(3,5) fresh0 ends0 here key
      by (intro insert_statement_inserts) simp_all
    have k: "same_key s t ty (new_row i0 now in0 w)"
      using key by (simp add: same_key_def new_row_def)
    have "endpoints_exist items (d\<lparr>synapses := synapses d @ [new_row i0 now in0 w]\<rparr>)"
      using ends endpoints_exist_neurons [of "d\<lparr>synapses := synapses d @ [new_row i0 now in0 w]\<rparr>" d items]
      by simp
    from insertMany_succeeds [OF this] obtain d' where
      rest: "insertMany now items (d\<lparr>synapses := synapses d @ [new_row i0 now in0 w]\<rparr>) = Inr d'"
      by blast
    have "filter (same_key s t ty) (synapses d') =
          filter (same_key s t ty) (synapses (d\<lparr>synapses := synapses d @ [new_row i0 now in0 w]\<rparr>))"
      using k by (intro insertMany_key [OF rest]) simp
    then have "filter (same_key s t ty) (synapses d') = [new_row ident now input w]"
      using none k here by simp
    then show ?thesis using step rest by (simp add: item)
  next
    case False
    then have tail: "find (asks_for s t ty) items = Some (ident, input)"
      using Cons.prems(4) by (simp add: item)
    from insert_statement_succeeds [OF ends0] obtain d1 where
      step: "insert_statement i0 now in0 d = Inr d1" by blast
    have nd: "neurons d1 = neurons d" by (rule insert_statement_neurons [OF step])
    have shape: "d1 = d \<or> (\<exists>w0. i_weight in0 = Num w0
                   \<and> d1 = d\<lparr>synapses := synapses d @ [new_row i0 now in0 w0]\<rparr>)"
      using insert_statement_cases [OF step] by blast
    have absent1: "\<not> list_ex (same_key s t ty) (synapses d1)"
      using shape Cons.prems(3) False
      by (auto simp: asks_for_def same_key_new_row)
    have fresh1: "fresh_ids items d1"
    proof -
      have "\<not> list_ex (\<lambda>r. s_id r = fst it) (synapses d1)" if "it \<in> set items" for it
      proof -
        have a: "\<not> list_ex (\<lambda>r. s_id r = fst it) (synapses d)"
          using fresh that by (simp add: fresh_ids_def list_all_iff)
        have b: "fst it \<noteq> i0" using other that by force
        show ?thesis using shape a b by (auto simp: new_row_def)
      qed
      then show ?thesis using fresh by (simp add: fresh_ids_def list_all_iff)
    qed
    have ends1: "endpoints_exist items d1"
      using ends endpoints_exist_neurons [OF nd, of items] by simp
    from Cons.IH [OF fresh1 ends1 absent1 tail Cons.prems(5)] step
    show ?thesis by (simp add: item)
  qed
qed

lemma createSynapse_twice:
  assumes absent: "\<not> list_ex (same_key s t ty) (synapses d)"
    and fresh: "\<not> list_ex (\<lambda>r. s_id r = ident) (synapses d)"
    and ends: "is_neuron s d" "is_neuron t d"
    and key1: "i_source_id input = s" "i_target_id input = t" "i_stype input = ty"
    and w: "i_weight input = Num w"
    and key2: "i_source_id input' = s" "i_target_id input' = t" "i_stype input' = ty"
  shows "createSynapse ident' now' input' (snd (createSynapse ident now input d))
           = (Inr (getSynapse ident' (snd (createSynapse ident now input d))),
              snd (createSynapse ident now input d))
       \<and> filter (same_key s t ty) (synapses (snd (createSynapse ident now input d)))
           = [new_row ident now input w]"
proof -
  define d1 where "d1 = snd (createSynapse ident now input d)"
  have "insert_statement ident now input d =
        Inr (d\<lparr>synapses := synapses d @ [new_row ident now input w]\<rparr>)"
    using absent fresh ends key1 w by (intro insert_statement_inserts) simp_all
  then have first: "d1 = d\<lparr>synapses := synapses d @ [new_row ident now input w]\<rparr>"
    by (simp add: d1_def createSynapse_def)
  have none: "filter (same_key s t ty) (synapses d) = []"
    using absent by (simp add: list_ex_iff filter_empty_conv)
  have k: "same_key s t ty (new_row ident now input w)"
    using key1 by (simp add: same_key_def new_row_def)
  have "insert_statement ident' now' input' d1 = Inr d1"
    using key2 k
    by (simp add: first insert_statement_def insert_or_ignore_def new_row_def
        split: number.splits)
  then have second: "createSynapse ident' now' input' d1 = (Inr (getSynapse ident' d1), d1)"
    by (simp add: createSynapse_def)
  have one: "filter (same_key s t ty) (synapses d1) = [new_row ident now input w]"
    using none k by (simp add: first)
  from second one show ?thesis unfolding d1_def by simp
qed

text \<open>
  Claim C3, amended. \<^verbatim>\<open>createSynapse\<close> and \<^verbatim>\<open>createSynapsesBatch\<close> insert where
  the triple \<open>(source_id, target_id, type)\<close> is absent and the weight is not
  \<^verbatim>\<open>NaN\<close>, and only there. A call of \<^verbatim>\<open>createSynapse\<close> on a triple that is stored
  leaves the store as it is. Two calls on a triple that was absent (between two neurons,
  the first with a new id and a weight that is not \<^verbatim>\<open>NaN\<close>) leave exactly one row
  with that triple: the row of the first call, with the first call's weight, and the
  second call changes nothing. A batch leaves the rows of every triple that was stored
  before it as they were, and a batch of nothing but duplicates of stored edges leaves
  the whole store as it was, without an error. A batch with new ids and neurons as
  endpoints succeeds, and for a triple that was absent it stores exactly one row: the
  row of its first item that asks for the triple with a weight that is not \<^verbatim>\<open>NaN\<close>;
  when it has no such item, no batch stores a row for the triple.
\<close>

theorem create_is_insert_if_absent:
  "(list_ex (same_key (i_source_id input) (i_target_id input) (i_stype input)) (synapses d)
      \<longrightarrow> snd (createSynapse ident now input d) = d)
 \<and> (\<not> list_ex (same_key s t ty) (synapses d) \<and> \<not> list_ex (\<lambda>r. s_id r = ident) (synapses d)
      \<and> is_neuron s d \<and> is_neuron t d
      \<and> i_source_id input1 = s \<and> i_target_id input1 = t \<and> i_stype input1 = ty
      \<and> i_weight input1 = Num w1
      \<and> i_source_id input2 = s \<and> i_target_id input2 = t \<and> i_stype input2 = ty
      \<longrightarrow> snd (createSynapse ident2 now2 input2 (snd (createSynapse ident now input1 d)))
            = snd (createSynapse ident now input1 d)
        \<and> filter (same_key s t ty)
            (synapses (snd (createSynapse ident2 now2 input2
               (snd (createSynapse ident now input1 d)))))
            = [new_row ident now input1 w1]
        \<and> weight (new_row ident now input1 w1) = w1)
 \<and> (list_ex (same_key s' t' ty') (synapses d)
      \<longrightarrow> filter (same_key s' t' ty') (synapses (snd (createSynapsesBatch now items d)))
            = filter (same_key s' t' ty') (synapses d))
 \<and> (list_all (\<lambda>item. list_ex (same_key (i_source_id (snd item)) (i_target_id (snd item))
                       (i_stype (snd item))) (synapses d)) dups
      \<longrightarrow> createSynapsesBatch now dups d = (Inr (), d))
 \<and> (fresh_ids items d \<and> endpoints_exist items d \<and> \<not> list_ex (same_key s t ty) (synapses d)
      \<and> find (asks_for s t ty) items = Some (identB, inputB) \<and> i_weight inputB = Num wB
      \<longrightarrow> fst (createSynapsesBatch now items d) = Inr ()
        \<and> filter (same_key s t ty) (synapses (snd (createSynapsesBatch now items d)))
            = [new_row identB now inputB wB])
 \<and> (\<not> list_ex (same_key s2 t2 ty2) (synapses d) \<and> find (asks_for s2 t2 ty2) items = None
      \<longrightarrow> filter (same_key s2 t2 ty2) (synapses (snd (createSynapsesBatch now items d))) = [])"
proof (intro conjI impI)
  assume "list_ex (same_key (i_source_id input) (i_target_id input) (i_stype input)) (synapses d)"
  then show "snd (createSynapse ident now input d) = d"
    by (simp add: createSynapse_def insert_statement_def insert_or_ignore_def new_row_def
        split: number.splits)
next
  assume h: "\<not> list_ex (same_key s t ty) (synapses d) \<and> \<not> list_ex (\<lambda>r. s_id r = ident) (synapses d)
      \<and> is_neuron s d \<and> is_neuron t d
      \<and> i_source_id input1 = s \<and> i_target_id input1 = t \<and> i_stype input1 = ty
      \<and> i_weight input1 = Num w1
      \<and> i_source_id input2 = s \<and> i_target_id input2 = t \<and> i_stype input2 = ty"
  then have tw: "createSynapse ident2 now2 input2 (snd (createSynapse ident now input1 d))
           = (Inr (getSynapse ident2 (snd (createSynapse ident now input1 d))),
              snd (createSynapse ident now input1 d))
       \<and> filter (same_key s t ty) (synapses (snd (createSynapse ident now input1 d)))
           = [new_row ident now input1 w1]"
    by (intro createSynapse_twice) simp_all
  then show "snd (createSynapse ident2 now2 input2 (snd (createSynapse ident now input1 d)))
            = snd (createSynapse ident now input1 d)" by simp
  from tw show "filter (same_key s t ty)
            (synapses (snd (createSynapse ident2 now2 input2
               (snd (createSynapse ident now input1 d)))))
            = [new_row ident now input1 w1]" by simp
  show "weight (new_row ident now input1 w1) = w1" by (simp add: new_row_def)
next
  assume ex: "list_ex (same_key s' t' ty') (synapses d)"
  show "filter (same_key s' t' ty') (synapses (snd (createSynapsesBatch now items d)))
            = filter (same_key s' t' ty') (synapses d)"
  proof (cases "insertMany now items d")
    case (Inl e)
    then show ?thesis by (simp add: createSynapsesBatch_def)
  next
    case (Inr d')
    then show ?thesis using insertMany_key [OF Inr ex] by (simp add: createSynapsesBatch_def)
  qed
next
  assume "list_all (\<lambda>item. list_ex (same_key (i_source_id (snd item)) (i_target_id (snd item))
                       (i_stype (snd item))) (synapses d)) dups"
  then show "createSynapsesBatch now dups d = (Inr (), d)"
    by (simp add: createSynapsesBatch_def insertMany_duplicates)
next
  assume h: "fresh_ids items d \<and> endpoints_exist items d
      \<and> \<not> list_ex (same_key s t ty) (synapses d)
      \<and> find (asks_for s t ty) items = Some (identB, inputB) \<and> i_weight inputB = Num wB"
  then have "\<exists>d'. insertMany now items d = Inr d'
           \<and> filter (same_key s t ty) (synapses d') = [new_row identB now inputB wB]"
    by (intro insertMany_inserts) simp_all
  then obtain d' where run: "insertMany now items d = Inr d'"
    and one: "filter (same_key s t ty) (synapses d') = [new_row identB now inputB wB]"
    by blast
  show "fst (createSynapsesBatch now items d) = Inr ()"
    by (simp add: createSynapsesBatch_def run)
  show "filter (same_key s t ty) (synapses (snd (createSynapsesBatch now items d)))
            = [new_row identB now inputB wB]"
    by (simp add: createSynapsesBatch_def run one)
next
  assume h: "\<not> list_ex (same_key s2 t2 ty2) (synapses d) \<and> find (asks_for s2 t2 ty2) items = None"
  then have none: "filter (same_key s2 t2 ty2) (synapses d) = []"
    by (simp add: list_ex_iff filter_empty_conv)
  show "filter (same_key s2 t2 ty2) (synapses (snd (createSynapsesBatch now items d))) = []"
  proof (cases "insertMany now items d")
    case (Inl e)
    then show ?thesis using none by (simp add: createSynapsesBatch_def)
  next
    case (Inr d')
    from insertMany_adds_nothing_unasked [OF Inr] h
    have "\<not> list_ex (same_key s2 t2 ty2) (synapses d')" by blast
    then show ?thesis
      using Inr by (simp add: createSynapsesBatch_def list_ex_iff filter_empty_conv)
  qed
qed

theorem create_is_insert_if_absent_witness:
  "list_ex (same_key ''N1'' ''N3'' Imports) (synapses imports_edge)
   \<and> \<not> list_ex (same_key ''N3'' ''N1'' Calls) (synapses imports_edge)
   \<and> snd (createSynapse ''S2'' 1 (example_input ''N1'' ''N3'' Imports (9/10)) imports_edge)
       = imports_edge
   \<and> filter (same_key ''N3'' ''N1'' Calls)
        (synapses (snd (createSynapse ''S3'' 2 (example_input ''N3'' ''N1'' Calls (9/10))
           (snd (createSynapse ''S2'' 1 (example_input ''N3'' ''N1'' Calls (1/2))
              imports_edge)))))
       = [new_row ''S2'' 1 (example_input ''N3'' ''N1'' Calls (1/2)) (Fin (1/2))]
   \<and> weight (new_row ''S2'' 1 (example_input ''N3'' ''N1'' Calls (1/2)) (Fin (1/2))) = Fin (1/2)
   \<and> createSynapsesBatch 1
        [(''S4'', example_input ''N1'' ''N3'' Imports 1),
         (''S5'', example_input ''N1'' ''N3'' Imports 0)] imports_edge
       = (Inr (), imports_edge)
   \<and> fresh_ids example_batch imports_edge \<and> endpoints_exist example_batch imports_edge
   \<and> find (asks_for ''N3'' ''N1'' Calls) example_batch
       = Some (''S6'', example_input ''N3'' ''N1'' Calls (1/4))
   \<and> fst (createSynapsesBatch 1 example_batch imports_edge) = Inr ()
   \<and> filter (same_key ''N3'' ''N1'' Calls)
        (synapses (snd (createSynapsesBatch 1 example_batch imports_edge)))
       = [new_row ''S6'' 1 (example_input ''N3'' ''N1'' Calls (1/4)) (Fin (1/4))]
   \<and> filter (same_key ''N1'' ''N3'' Imports)
        (synapses (snd (createSynapsesBatch 1 example_batch imports_edge)))
       = filter (same_key ''N1'' ''N3'' Imports) (synapses imports_edge)
   \<and> find (asks_for ''N3'' ''N1'' Semantic) example_batch = None
   \<and> filter (same_key ''N3'' ''N1'' Semantic)
        (synapses (snd (createSynapsesBatch 1 example_batch imports_edge))) = []"
proof -
  have a: "list_ex (same_key ''N1'' ''N3'' Imports) (synapses imports_edge)"
    by (simp add: imports_edge_def two_neurons_def example_synapse_def same_key_def)
  have b: "\<not> list_ex (same_key ''N3'' ''N1'' Calls) (synapses imports_edge)"
    "\<not> list_ex (\<lambda>r. s_id r = ''S2'') (synapses imports_edge)"
    "is_neuron ''N3'' imports_edge" "is_neuron ''N1'' imports_edge"
    "\<not> list_ex (same_key ''N3'' ''N1'' Semantic) (synapses imports_edge)"
    by (simp_all add: imports_edge_def two_neurons_def example_synapse_def same_key_def
        is_neuron_def example_neuron_def)
  have c: "list_all (\<lambda>item. list_ex (same_key (i_source_id (snd item)) (i_target_id (snd item))
                       (i_stype (snd item))) (synapses imports_edge))
             [(''S4'', example_input ''N1'' ''N3'' Imports 1),
              (''S5'', example_input ''N1'' ''N3'' Imports 0)]"
    by (simp add: imports_edge_def two_neurons_def example_synapse_def same_key_def
        example_input_def)
  have e: "fresh_ids example_batch imports_edge" "endpoints_exist example_batch imports_edge"
    by (simp_all add: fresh_ids_def endpoints_exist_def example_batch_def imports_edge_def
        two_neurons_def example_synapse_def example_input_def nan_input_def is_neuron_def
        example_neuron_def)
  have f: "find (asks_for ''N3'' ''N1'' Calls) example_batch
             = Some (''S6'', example_input ''N3'' ''N1'' Calls (1/4))"
    "find (asks_for ''N3'' ''N1'' Semantic) example_batch = None"
    by (simp_all add: example_batch_def asks_for_def example_input_def nan_input_def)
  have k: "i_source_id (example_input s t ty w) = s" "i_target_id (example_input s t ty w) = t"
    "i_stype (example_input s t ty w) = ty" "i_weight (example_input s t ty w) = Num (Fin w)"
    for s t ty w
    by (simp_all add: example_input_def)
  have w: "weight (new_row ''S2'' 1 (example_input ''N3'' ''N1'' Calls (1/2)) (Fin (1/2)))
             = Fin (1/2)"
    by (simp add: new_row_def)
  note T = create_is_insert_if_absent
    [where input = "example_input ''N1'' ''N3'' Imports (9/10)" and d = imports_edge
       and ident = "''S2''" and now = 1
       and s = "''N3''" and t = "''N1''" and ty = Calls
       and ?input1.0 = "example_input ''N3'' ''N1'' Calls (1/2)" and ?w1.0 = "Fin (1/2)"
       and ?input2.0 = "example_input ''N3'' ''N1'' Calls (9/10)"
       and ?ident2.0 = "''S3''" and ?now2.0 = 2
       and s' = "''N1''" and t' = "''N3''" and ty' = Imports
       and dups = "[(''S4'', example_input ''N1'' ''N3'' Imports 1),
                    (''S5'', example_input ''N1'' ''N3'' Imports 0)]"
       and items = example_batch
       and identB = "''S6''" and inputB = "example_input ''N3'' ''N1'' Calls (1/4)"
       and wB = "Fin (1/4)"
       and ?s2.0 = "''N3''" and ?t2.0 = "''N1''" and ?ty2.0 = Semantic]
  from T [unfolded k] a b c e f w show ?thesis by blast
qed

theorem createSynapse_NaN_first_counterexample:
  "filter (same_key ''N1'' ''N3'' Imports)
     (synapses (snd (createSynapse ''S1'' 1 nan_input two_neurons))) = []
   \<and> snd (createSynapse ''S2'' 2 (example_input ''N1'' ''N3'' Imports (1/2))
          (snd (createSynapse ''S1'' 1 nan_input two_neurons)))
       \<noteq> snd (createSynapse ''S1'' 1 nan_input two_neurons)
   \<and> filter (same_key ''N1'' ''N3'' Imports)
        (synapses (snd (createSynapse ''S2'' 2 (example_input ''N1'' ''N3'' Imports (1/2))
           (snd (createSynapse ''S1'' 1 nan_input two_neurons)))))
       = [new_row ''S2'' 2 (example_input ''N1'' ''N3'' Imports (1/2)) (Fin (1/2))]"
proof -
  have first: "snd (createSynapse ''S1'' 1 nan_input two_neurons) = two_neurons"
    by (simp add: createSynapse_def insert_statement_def nan_input_def)
  have second: "snd (createSynapse ''S2'' 2 (example_input ''N1'' ''N3'' Imports (1/2))
                  two_neurons)
      = two_neurons\<lparr>synapses :=
          [new_row ''S2'' 2 (example_input ''N1'' ''N3'' Imports (1/2)) (Fin (1/2))]\<rparr>"
    by (simp add: createSynapse_def insert_statement_def insert_or_ignore_def new_row_def
        example_input_def two_neurons_def example_neuron_def is_neuron_def same_key_def)
  have k: "same_key ''N1'' ''N3'' Imports
             (new_row ''S2'' 2 (example_input ''N1'' ''N3'' Imports (1/2)) (Fin (1/2)))"
    by (simp add: same_key_new_row example_input_def)
  have e: "synapses two_neurons = []" by (simp add: two_neurons_def)
  have ne: "two_neurons\<lparr>synapses :=
          [new_row ''S2'' 2 (example_input ''N1'' ''N3'' Imports (1/2)) (Fin (1/2))]\<rparr>
        \<noteq> two_neurons"
  proof
    assume "two_neurons\<lparr>synapses :=
          [new_row ''S2'' 2 (example_input ''N1'' ''N3'' Imports (1/2)) (Fin (1/2))]\<rparr>
        = two_neurons"
    then have "synapses (two_neurons\<lparr>synapses :=
          [new_row ''S2'' 2 (example_input ''N1'' ''N3'' Imports (1/2)) (Fin (1/2))]\<rparr>)
        = synapses two_neurons" by simp
    then show False by (simp add: e)
  qed
  show ?thesis
    unfolding first second using k e ne by simp
qed

subsection \<open>Self-loops\<close>

text \<open>
  Claim C4, amended. Neither the table's constraints nor \<^verbatim>\<open>createSynapse\<close>,
  \<^verbatim>\<open>createSynapsesBatch\<close> or \<^verbatim>\<open>findOrCreateCoActivationSynapse\<close> compare the
  two endpoints, so a synapse from a neuron to itself is stored when the caller asks for
  one. What holds is this: when every call is given two different endpoints, no
  sequence of calls adds a self-loop to a store that has none.
\<close>

theorem no_self_loops_preserved:
  assumes "no_self_loops d" and "list_all endpoints_distinct ops"
  shows "no_self_loops (run_ops ops d)"
  using assms by (induction ops arbitrary: d) (simp_all add: apply_op_loops)

theorem no_self_loops_preserved_witness:
  "no_self_loops imports_edge \<and> list_all endpoints_distinct distinct_ops
   \<and> no_self_loops (run_ops distinct_ops imports_edge)"
proof -
  have h1: "no_self_loops imports_edge"
    by (simp add: no_self_loops_def imports_edge_def two_neurons_def example_synapse_def)
  have h2: "list_all endpoints_distinct distinct_ops"
    by (simp add: distinct_ops_def example_input_def)
  from no_self_loops_preserved [OF h1 h2] h1 h2 show ?thesis by simp
qed

theorem self_loop_counterexample:
  "no_self_loops two_neurons
   \<and> \<not> no_self_loops
         (run_ops [Op_createSynapse ''S1'' 0 (example_input ''N1'' ''N1'' Imports (1/2))]
            two_neurons)
   \<and> \<not> no_self_loops
         (run_ops [Op_findOrCreateCoActivationSynapse ''S1'' 0 ''N1'' ''N1''] two_neurons)
   \<and> \<not> no_self_loops
         (run_ops [Op_createSynapsesBatch 0
                     [(''S1'', example_input ''N1'' ''N1'' Imports (1/2))]] two_neurons)"
  by (simp add: no_self_loops_def two_neurons_def example_input_def example_neuron_def
      createSynapse_def insert_statement_def insert_or_ignore_def new_row_def is_neuron_def same_key_def
      findOrCreateCoActivationSynapse_def createSynapsesBatch_def)

subsection \<open>Opening a store of a newer schema\<close>

text \<open>
  Claim C5, amended. \<^verbatim>\<open>migrate\<close> compares the stored version with 1 only to decide
  whether to create the tables; it has no branch for a version above
  \<^verbatim>\<open>SCHEMA_VERSION\<close>. What holds is this: opening a store does not fail on account
  of its schema version, and a store whose version is 1 or newer is opened as it is,
  unchanged.
\<close>

theorem open_store_ignores_newer_schema:
  "\<not> isl (open_store f)
   \<and> (map_of (meta f) ''schema_version'' = Some v \<and> parseInt v = Some n \<and> 1 \<le> n
        \<longrightarrow> open_store f = Inr f)"
  by (auto simp: open_store_def migrate_def js_less_def Let_def split: option.splits)

theorem open_store_ignores_newer_schema_witness:
  "map_of (meta newer_store) ''schema_version'' = Some ''2'' \<and> parseInt ''2'' = Some 2
   \<and> \<not> isl (open_store newer_store) \<and> open_store newer_store = Inr newer_store"
proof -
  have a: "map_of (meta newer_store) ''schema_version'' = Some ''2''"
    by (simp add: newer_store_def)
  have b: "parseInt ''2'' = Some 2"
    by (simp add: parseInt_def is_whitespace_def is_digit_def digit_value_def)
  from open_store_ignores_newer_schema [of newer_store "''2''" 2] a b show ?thesis by simp
qed

theorem open_store_newer_schema_counterexample:
  "\<not> isl (open_store newer_store) \<and> open_store newer_store = Inr newer_store"
  by (simp add: open_store_def migrate_def newer_store_def parseInt_def js_less_def
      is_whitespace_def is_digit_def digit_value_def)

subsection \<open>Decay\<close>

text \<open>
  Claim C6. \<^verbatim>\<open>decayUnusedSynapses\<close> lowers the weight by delta, not below 0, of
  exactly the synapses of type \<open>co_activation\<close> whose \<open>last_fired\<close> is set and lies
  more than \<open>daysOld\<close> Julian days back; every other row (a structural synapse, a
  synapse never fired) and the neurons stay as they are, and the number returned is the
  number of rows so selected. The new weight is \<^verbatim>\<open>MAX(0.0, weight - delta)\<close>, never
  negative; for a finite weight \<open>w\<close> it is the maximum of 0 and \<open>w - delta\<close>.
\<close>

theorem decayUnusedSynapses_effect:
  assumes "decayUnusedSynapses now daysOld delta d = (n, d')"
  shows "neurons d' = neurons d
    \<and> length (synapses d') = length (synapses d)
    \<and> n = length (filter (\<lambda>r. s_type r = Co_activation
                \<and> (\<exists>t. last_fired r = Some t \<and> daysOld < now - t)) (synapses d))
    \<and> (\<forall>i < length (synapses d).
          if s_type (synapses d ! i) = Co_activation
             \<and> (\<exists>t. last_fired (synapses d ! i) = Some t \<and> daysOld < now - t)
          then synapses d' ! i =
                 (synapses d ! i)\<lparr>weight :=
                    sql_max 0 (sql_sub (weight (synapses d ! i)) delta)\<rparr>
               \<and> not_negative (weight (synapses d' ! i))
               \<and> (\<forall>w. weight (synapses d ! i) = Fin w
                      \<longrightarrow> weight (synapses d' ! i) = Fin (max 0 (w - delta)))
          else synapses d' ! i = synapses d ! i)"
proof -
  have sel: "decay_where now daysOld = (\<lambda>r. s_type r = Co_activation
                \<and> (\<exists>t. last_fired r = Some t \<and> daysOld < now - t))"
    by (auto simp: decay_where_def fun_eq_iff split: option.splits)
  have d': "d' = d\<lparr>synapses := snd (sql_update (decay_where now daysOld)
             (\<lambda>r. r\<lparr>weight := sql_max 0 (sql_sub (weight r) delta)\<rparr>) (synapses d))\<rparr>"
    and n: "n = fst (sql_update (decay_where now daysOld)
             (\<lambda>r. r\<lparr>weight := sql_max 0 (sql_sub (weight r) delta)\<rparr>) (synapses d))"
    using assms by (auto simp: decayUnusedSynapses_def split: prod.splits)
  have nn: "not_negative (sql_max 0 x)" for x
    by (cases x) simp_all
  show ?thesis
    unfolding d' n sql_update_snd sql_update_fst sel by (auto simp: nn)
qed

theorem decayUnusedSynapses_effect_witness:
  "decayUnusedSynapses 100 7 (5/100) decay_example =
     (1, decay_example\<lparr>synapses :=
        [example_synapse ''S1'' ''N1'' ''N3'' Co_activation 0 (Some 90),
         example_synapse ''S2'' ''N1'' ''N3'' Imports (1/2) (Some 90),
         example_synapse ''S3'' ''N3'' ''N1'' Co_activation (3/10) None,
         example_synapse ''S4'' ''N3'' ''N3'' Co_activation (3/10) (Some 93)]\<rparr>)
   \<and> 1 = length (filter (\<lambda>r. s_type r = Co_activation
                \<and> (\<exists>t. last_fired r = Some t \<and> 7 < 100 - t)) (synapses decay_example))"
proof -
  have run: "decayUnusedSynapses 100 7 (5/100) decay_example =
     (1, decay_example\<lparr>synapses :=
        [example_synapse ''S1'' ''N1'' ''N3'' Co_activation 0 (Some 90),
         example_synapse ''S2'' ''N1'' ''N3'' Imports (1/2) (Some 90),
         example_synapse ''S3'' ''N3'' ''N1'' Co_activation (3/10) None,
         example_synapse ''S4'' ''N3'' ''N3'' Co_activation (3/10) (Some 93)]\<rparr>)"
    by (simp add: decayUnusedSynapses_def decay_example_def two_neurons_def
        example_synapse_def decay_where_def)
  from decayUnusedSynapses_effect [OF run] run show ?thesis by blast
qed

subsection \<open>The frame of a co-activation\<close>

text \<open>
  Claim C7 says that strengthening an existing co-activation synapse from \<open>a\<close> to \<open>b\<close>
  changes no other row. The lookup of \<^verbatim>\<open>findOrCreateCoActivationSynapse\<close> asks for
  the type \<open>co_activation\<close>, but the \<^verbatim>\<open>UPDATE\<close> of \<^verbatim>\<open>strengthenSynapse\<close> that it
  then runs selects on the endpoints alone. On a store with an \<open>imports\<close> synapse and
  a co-activation synapse from N1 to N3 the call changes both rows: the structural
  synapse goes from weight 0.5 to 0.55, its \<open>fire_count\<close> from 0 to 1 and its
  \<open>last_fired\<close> from unset to the time of the call.
\<close>

theorem observe_strengthens_structural_synapse:
  "findOrCreateCoActivationSynapse ''S3'' 5 ''N1'' ''N3'' coactivation_example =
     (Inr (), coactivation_example\<lparr>synapses :=
        [(example_synapse ''S1'' ''N1'' ''N3'' Imports (55/100) (Some 5))\<lparr>fire_count := 1\<rparr>,
         (example_synapse ''S2'' ''N1'' ''N3'' Co_activation (35/100) (Some 5))\<lparr>fire_count := 1\<rparr>]\<rparr>)"
  by (simp add: findOrCreateCoActivationSynapse_def coactivation_example_def two_neurons_def
      example_synapse_def same_key_def strengthenSynapse_def strengthen_default_def)

subsection \<open>Strengthening and weakening\<close>

text \<open>
  Claim C8. On a synapse between the given endpoints, \<^verbatim>\<open>strengthenSynapse\<close> sets the
  weight to the minimum of 1 and the old weight plus delta, adds one to
  \<open>fire_count\<close> and sets \<open>last_fired\<close> to the current time;
  \<^verbatim>\<open>weakenSynapse\<close> sets the weight to the maximum of 0 and the old weight minus
  delta and leaves \<open>fire_count\<close> and \<open>last_fired\<close> as they were. A synapse between
  other endpoints is not changed by either. The new weights are
  \<^verbatim>\<open>MIN(1.0, weight + delta)\<close> and \<^verbatim>\<open>MAX(0.0, weight - delta)\<close> on every stored
  weight; for a finite weight \<open>w\<close> they are the numbers \<open>min 1 (w + delta)\<close> and
  \<open>max 0 (w - delta)\<close>.
\<close>

theorem adjust_weight_effect:
  assumes "i < length (synapses d)" and "r = synapses d ! i"
  shows "length (synapses (strengthenSynapse now s t delta d)) = length (synapses d)
    \<and> length (synapses (weakenSynapse s t delta' d)) = length (synapses d)
    \<and> (source_id r = s \<and> target_id r = t \<longrightarrow>
         synapses (strengthenSynapse now s t delta d) ! i =
           r\<lparr>weight := sql_min 1 (sql_add (weight r) delta),
             fire_count := fire_count r + 1, last_fired := Some now\<rparr>
       \<and> synapses (weakenSynapse s t delta' d) ! i =
           r\<lparr>weight := sql_max 0 (sql_sub (weight r) delta')\<rparr>
       \<and> fire_count (synapses (weakenSynapse s t delta' d) ! i) = fire_count r
       \<and> last_fired (synapses (weakenSynapse s t delta' d) ! i) = last_fired r
       \<and> (weight r = Fin w \<longrightarrow>
            synapses (strengthenSynapse now s t delta d) ! i =
              r\<lparr>weight := Fin (min 1 (w + delta)), fire_count := fire_count r + 1,
                last_fired := Some now\<rparr>
          \<and> synapses (weakenSynapse s t delta' d) ! i =
              r\<lparr>weight := Fin (max 0 (w - delta'))\<rparr>))
    \<and> (\<not> (source_id r = s \<and> target_id r = t) \<longrightarrow>
         synapses (strengthenSynapse now s t delta d) ! i = r
       \<and> synapses (weakenSynapse s t delta' d) ! i = r)"
  using assms by (simp add: strengthenSynapse_def weakenSynapse_def sql_update_snd)

theorem adjust_weight_effect_witness:
  "0 < length (synapses imports_edge)
   \<and> weight (synapses (strengthenSynapse 5 ''N1'' ''N3'' (7/10) imports_edge) ! 0) = Fin 1
   \<and> fire_count (synapses (strengthenSynapse 5 ''N1'' ''N3'' (7/10) imports_edge) ! 0) = 1
   \<and> last_fired (synapses (strengthenSynapse 5 ''N1'' ''N3'' (7/10) imports_edge) ! 0) = Some 5
   \<and> weight (synapses (weakenSynapse ''N1'' ''N3'' (7/10) imports_edge) ! 0) = Fin 0
   \<and> fire_count (synapses (weakenSynapse ''N1'' ''N3'' (7/10) imports_edge) ! 0) = 0
   \<and> last_fired (synapses (weakenSynapse ''N1'' ''N3'' (7/10) imports_edge) ! 0) = None
   \<and> synapses (strengthenSynapse 5 ''N3'' ''N1'' (7/10) imports_edge) ! 0
       = synapses imports_edge ! 0
   \<and> synapses (weakenSynapse ''N3'' ''N1'' (7/10) imports_edge) ! 0
       = synapses imports_edge ! 0"
proof -
  have i: "0 < length (synapses imports_edge)"
    and r: "synapses imports_edge ! 0 = example_synapse ''S1'' ''N1'' ''N3'' Imports (1/2) None"
    by (simp_all add: imports_edge_def two_neurons_def)
  have k: "source_id (example_synapse ''S1'' ''N1'' ''N3'' Imports (1/2) None) = ''N1''"
    "target_id (example_synapse ''S1'' ''N1'' ''N3'' Imports (1/2) None) = ''N3''"
    "weight (example_synapse ''S1'' ''N1'' ''N3'' Imports (1/2) None) = Fin (1/2)"
    "fire_count (example_synapse ''S1'' ''N1'' ''N3'' Imports (1/2) None) = 0"
    "last_fired (example_synapse ''S1'' ''N1'' ''N3'' Imports (1/2) None) = None"
    by (simp_all add: example_synapse_def)
  note hit = adjust_weight_effect
    [OF i refl, where s = "''N1''" and t = "''N3''" and now = 5 and delta = "7/10"
       and delta' = "7/10" and w = "1/2"]
  note miss = adjust_weight_effect
    [OF i refl, where s = "''N3''" and t = "''N1''" and now = 5 and delta = "7/10"
       and delta' = "7/10" and w = "1/2"]
  from hit miss i show ?thesis by (simp add: r k)
qed

subsection \<open>Reading a neuron back\<close>

text \<open>
  Claim C9 says that a neuron read back after \<^verbatim>\<open>createNeuron\<close> has the embedding of
  the input, byte for byte. \<^verbatim>\<open>createNeuron\<close> stores
  \<^verbatim>\<open>Buffer.from(input.embedding.buffer)\<close>, the whole buffer behind the array and not
  the bytes of the array. For the one-element array \<open>subarray_input\<close>, a valid view
  on the second float of a buffer of two, the neuron that comes back has an embedding of
  eight bytes, both floats, where the input has the four bytes of one.
\<close>

theorem createNeuron_subarray_embedding_differs:
  "valid_view (i_embedding subarray_input)
   \<and> view_bytes (i_embedding subarray_input) = [0, 0, 0, 64]
   \<and> read_back_bytes (fst (createNeuron ''N9'' 0 subarray_input empty_db))
       = Some [0, 0, 128, 63, 0, 0, 0, 64]"
  by (simp add: valid_view_def view_bytes_def subarray_input_def read_back_bytes_def
      createNeuron_def getNeuron_def rowToNeuron_def empty_db_def)

lemma createNeuron_roundtrip_whole_buffer:
  assumes "\<not> list_ex (\<lambda>r. r_id r = ident) (neurons d)"
    and "byteOffset (i_embedding input) = 0"
    and "length (buffer (i_embedding input)) = 4 * elems (i_embedding input)"
  shows "\<exists>n. fst (createNeuron ident now input d) = Inr (Some n)
    \<and> content n = i_content input \<and> summary n = i_summary input
    \<and> file_path n = i_file_path input \<and> start_line n = i_start_line input
    \<and> end_line n = i_end_line input \<and> n_type n = i_type input
    \<and> name n = i_name input \<and> language n = i_language input
    \<and> embedding n = i_embedding input"
proof -
  have "find (\<lambda>r. r_id r = ident) (neurons d) = None"
    using assms(1) by (rule find_None_list_ex)
  then have f: "find (\<lambda>r. r_id r = ident) (neurons d @ [row]) = Some row" if "r_id row = ident" for row
    using that by (intro find_snoc) simp_all
  show ?thesis
    using assms by (simp add: createNeuron_def getNeuron_def f rowToNeuron_def)
qed

subsection \<open>Creating a synapse whose triple is taken\<close>

text \<open>
  Claim C10. When the triple \<open>(source_id, target_id, type)\<close> of the input is already
  in the table and the id drawn is new, \<^verbatim>\<open>createSynapse\<close> returns \<^verbatim>\<open>null\<close> (here
  \<open>None\<close>) and not the synapse that holds the triple: the insert is ignored, so the
  lookup by the new id finds no row, and the store is as before.
\<close>

theorem createSynapse_duplicate_returns_null:
  assumes "list_ex (same_key (i_source_id input) (i_target_id input) (i_stype input)) (synapses d)"
    and "\<not> list_ex (\<lambda>r. s_id r = ident) (synapses d)"
  shows "createSynapse ident now input d = (Inr None, d)"
proof -
  have "insert_statement ident now input d = Inr d"
    using assms(1)
    by (simp add: insert_statement_def insert_or_ignore_def new_row_def split: number.splits)
  moreover have "getSynapse ident d = None"
    using assms(2) by (simp add: getSynapse_def find_None_list_ex)
  ultimately show ?thesis by (simp add: createSynapse_def)
qed

theorem createSynapse_duplicate_returns_null_witness:
  "list_ex (same_key ''N1'' ''N3'' Imports) (synapses imports_edge)
   \<and> \<not> list_ex (\<lambda>r. s_id r = ''S2'') (synapses imports_edge)
   \<and> createSynapse ''S2'' 1 (example_input ''N1'' ''N3'' Imports (9/10)) imports_edge
       = (Inr None, imports_edge)"
  using createSynapse_duplicate_returns_null
    [of "example_input ''N1'' ''N3'' Imports (9/10)" imports_edge "''S2''" 1]
  by (simp add: imports_edge_def two_neurons_def example_synapse_def example_input_def same_key_def)

end
